theory Spec2Isabelle
  imports Main
begin

section \<open>Values crossing the MCP boundary\<close>

text \<open>
  A value thrown or used as a rejection reason in the TypeScript source. The handlers of
  the source only ever ask \<^verbatim>\<open>error instanceof Error ? error.message : String(error)\<close>,
  so a thrown value is either an \<^verbatim>\<open>Error\<close> with its message, or any other value,
  kept as the text \<^verbatim>\<open>String(value)\<close> gives for it.
\<close>

datatype js_error = Error string | NonError string

fun errorMsg :: "js_error \<Rightarrow> string" where
  "errorMsg (Error m) = m"
| "errorMsg (NonError s) = s"

text \<open>A JSON value, for the input schemas, which the bridge passes through unread.\<close>

datatype json =
    JNull
  | JBool bool
  | JNum int
  | JStr string
  | JArr "json list"
  | JObj "(string \<times> json) list"

text \<open>\<^verbatim>\<open>McpContentItem\<close>: \<^verbatim>\<open>type: 'text' | 'image'\<close>, the other fields optional.\<close>

datatype content_type = Text | Image

record McpContentItem =
  ctype :: content_type
  ctext :: "string option"
  cdata :: "string option"
  mimeType :: "string option"

text \<open>\<^verbatim>\<open>McpToolCallResult\<close>: both fields optional in the interface.\<close>

record McpToolCallResult =
  content :: "McpContentItem list option"
  isError :: "bool option"

text \<open>
  What the SDK client's \<^verbatim>\<open>callTool\<close> resolves with, as far as \<^verbatim>\<open>toResult\<close>
  reads it: \<^verbatim>\<open>raw.content\<close> is an array of items or something else (\<open>None\<close>),
  an item's \<^verbatim>\<open>type\<close> is any string or absent, \<^verbatim>\<open>raw.isError\<close> is a boolean
  or absent.
\<close>

record raw_item =
  raw_type :: "string option"
  raw_text :: "string option"
  raw_data :: "string option"
  raw_mimeType :: "string option"

record raw_response =
  raw_content :: "raw_item list option"
  raw_isError :: "bool option"

definition toResult_item :: "raw_item \<Rightarrow> McpContentItem" where
  "toResult_item item =
     \<lparr> ctype = (if raw_type item = Some ''image'' then Image else Text),
       ctext = raw_text item,
       cdata = raw_data item,
       mimeType = raw_mimeType item \<rparr>"

definition toResult :: "raw_response \<Rightarrow> McpToolCallResult" where
  "toResult raw =
     \<lparr> content = (case raw_content raw of
                    Some items \<Rightarrow> Some (map toResult_item items)
                  | None \<Rightarrow> None),
       isError = Some (raw_isError raw = Some True) \<rparr>"

section \<open>Normalising a tool call response (\<^verbatim>\<open>McpToolInvocation.execute\<close>)\<close>

text \<open>\<^verbatim>\<open>Array.prototype.join\<close> on strings.\<close>

fun js_join :: "string \<Rightarrow> string list \<Rightarrow> string" where
  "js_join sep [] = []"
| "js_join sep [x] = x"
| "js_join sep (x # y # ys) = x @ sep @ js_join sep (y # ys)"

definition newline :: string where
  "newline = [CHR 0x0A]"

text \<open>Truthiness of an optional string: present and not empty.\<close>

fun truthy_str :: "string option \<Rightarrow> bool" where
  "truthy_str None = False"
| "truthy_str (Some s) = (s \<noteq> [])"

text \<open>An absent element is joined as the empty string.\<close>

fun str_or_empty :: "string option \<Rightarrow> string" where
  "str_or_empty None = []"
| "str_or_empty (Some s) = s"

text \<open>
  \<^verbatim>\<open>result.content.filter((c) => c.type === 'text' && c.text).map((c) => c.text).join('\n')\<close>,
  and the empty string when there is no content array.
\<close>

definition textContent :: "McpToolCallResult \<Rightarrow> string" where
  "textContent result =
     (case content result of
        None \<Rightarrow> []
      | Some cs \<Rightarrow>
          js_join newline
            (map (\<lambda>c. str_or_empty (ctext c))
               (filter (\<lambda>c. ctype c = Text \<and> truthy_str (ctext c)) cs)))"

text \<open>\<^verbatim>\<open>ToolResult\<close>, with \<^verbatim>\<open>error: { message }\<close> as the optional message.\<close>

record ToolResult =
  llmContent :: string
  returnDisplay :: string
  error :: "string option"

text \<open>\<^verbatim>\<open>a || b\<close> on strings.\<close>

definition str_or :: "string \<Rightarrow> string \<Rightarrow> string" where
  "str_or a b = (if a \<noteq> [] then a else b)"

text \<open>The body of the \<^verbatim>\<open>try\<close> block of \<^verbatim>\<open>execute\<close>, after \<^verbatim>\<open>callTool\<close> has resolved.\<close>

definition execute_resolved :: "McpToolCallResult \<Rightarrow> ToolResult" where
  "execute_resolved result =
     (let t = textContent result in
      if isError result = Some True
      then \<lparr> llmContent = ''Error: '' @ t,
             returnDisplay = ''Error: '' @ t,
             error = Some t \<rparr>
      else \<lparr> llmContent = str_or t ''Tool executed successfully.'',
             returnDisplay = str_or t ''Tool executed successfully.'',
             error = None \<rparr>)"

text \<open>The \<^verbatim>\<open>catch\<close> block of \<^verbatim>\<open>execute\<close>.\<close>

definition execute_rejected :: "js_error \<Rightarrow> ToolResult" where
  "execute_rejected e =
     \<lparr> llmContent = ''Error: '' @ errorMsg e,
       returnDisplay = ''Error: '' @ errorMsg e,
       error = Some (errorMsg e) \<rparr>"

section \<open>The world outside the manager\<close>

text \<open>
  Objects created by \<^verbatim>\<open>new\<close> are named by a reference. Everything the manager does to
  the outside (creating the SDK client, creating the stdio transport that launches
  \<^verbatim>\<open>npx\<close>, issuing protocol requests, closing, logging, calling the
  \<^verbatim>\<open>printOutput\<close> callback) is recorded, in order, in the
  world's trace. The world also holds the contents of the main tool registry, shared by
  all sessions, as the references of the tools registered there.
\<close>

type_synonym ref = nat

type_synonym tool_args = "(string \<times> json) list"

datatype action =
    NewClient ref
  | NewTransport ref string "string list"
  | Connect ref ref
  | ListTools ref
  | CallToolRequest ref string tool_args nat
  | CloseClient ref
  | CloseTransport ref
  | Log string
  | LogError string
  | PrintOutput string

record world =
  next_ref :: ref
  trace :: "action list"
  registry :: "ref list"

definition emit :: "action \<Rightarrow> world \<Rightarrow> world" where
  "emit a w = w\<lparr>trace := trace w @ [a]\<rparr>"

definition fresh :: "world \<Rightarrow> ref \<times> world" where
  "fresh w = (next_ref w, w\<lparr>next_ref := Suc (next_ref w)\<rparr>)"

text \<open>Decimal text of a number, for the log lines that print a length.\<close>

definition digit :: "nat \<Rightarrow> char" where
  "digit d = char_of (48 + d)"

fun show_nat :: "nat \<Rightarrow> string" where
  "show_nat n = (if n < 10 then [digit n] else show_nat (n div 10) @ [digit (n mod 10)])"

declare show_nat.simps [simp del]

section \<open>\<^verbatim>\<open>BrowserManager\<close>\<close>

text \<open>\<^verbatim>\<open>Tool\<close> of the MCP SDK, as far as the bridge reads it.\<close>

record McpTool =
  name :: string
  description :: "string option"
  inputSchema :: "json option"

text \<open>\<^verbatim>\<open>config.getBrowserAgentConfig().customConfig\<close>.\<close>

record Config =
  headless :: bool
  chromeProfilePath :: "string option"

record BrowserManager =
  config :: Config
  rawMcpClient :: "ref option"
  mcpTransport :: "ref option"
  discoveredTools :: "McpTool list"

text \<open>\<^verbatim>\<open>new BrowserManager(config)\<close>.\<close>

definition new_BrowserManager :: "Config \<Rightarrow> BrowserManager" where
  "new_BrowserManager cfg =
     \<lparr> config = cfg, rawMcpClient = None, mcpTransport = None, discoveredTools = [] \<rparr>"

definition CHROME_DEVTOOLS_MCP_VERSION :: string where
  "CHROME_DEVTOOLS_MCP_VERSION = ''0.13.0''"

definition MCP_TIMEOUT_MS :: nat where
  "MCP_TIMEOUT_MS = 60000"

definition mcpArgs :: "Config \<Rightarrow> string list" where
  "mcpArgs cfg =
     [''-y'', ''chrome-devtools-mcp@'' @ CHROME_DEVTOOLS_MCP_VERSION,
      ''--isolated'', ''--experimental-vision'']
     @ (if headless cfg then [''--headless''] else [])
     @ (case chromeProfilePath cfg of
          Some p \<Rightarrow> if p \<noteq> [] then [''--profile-path'', p] else []
        | None \<Rightarrow> [])"

subsection \<open>\<^verbatim>\<open>connectMcp\<close> and \<^verbatim>\<open>discoverTools\<close>, cut at their awaits\<close>

text \<open>
  An \<^verbatim>\<open>async\<close> method runs without interruption up to its next \<^verbatim>\<open>await\<close>. Each
  definition below is one such uninterrupted part; the outcome of the awaited request is
  the argument of the part that follows it.

  \<open>connectMcp_start\<close> is \<^verbatim>\<open>connectMcp\<close> up to the await of \<^verbatim>\<open>connect\<close>: the client
  is created and stored, the arguments are built, the transport is created and stored,
  and the connect is issued.
\<close>

definition connectMcp_start :: "BrowserManager \<Rightarrow> world \<Rightarrow> BrowserManager \<times> world" where
  "connectMcp_start m w =
     (let w1 = emit (Log ''Connecting isolated MCP client to chrome-devtools-mcp...'') w;
          (c, w2) = fresh w1;
          w3 = emit (NewClient c) w2;
          m1 = m\<lparr>rawMcpClient := Some c\<rparr>;
          as = mcpArgs (config m1);
          w4 = emit (Log (''Launching chrome-devtools-mcp with args: '' @ js_join '' '' as)) w3;
          (t, w5) = fresh w4;
          w6 = emit (NewTransport t ''npx'' as) w5;
          m2 = m1\<lparr>mcpTransport := Some t\<rparr>;
          w7 = emit (Connect c t) w6
      in (m2, w7))"

text \<open>
  After \<^verbatim>\<open>connect\<close> has settled: a rejection leaves \<^verbatim>\<open>connectMcp\<close> with that
  error; otherwise \<^verbatim>\<open>discoverTools\<close> runs up to the await of \<^verbatim>\<open>listTools\<close>.
  \<open>Inr ()\<close> says that the method is now waiting for the list.
\<close>

definition connectMcp_connected ::
  "js_error + unit \<Rightarrow> BrowserManager \<Rightarrow> world \<Rightarrow> (js_error + unit) \<times> BrowserManager \<times> world" where
  "connectMcp_connected rc m w =
     (case rc of
        Inl e \<Rightarrow> (Inl e, m, w)
      | Inr _ \<Rightarrow>
          (let w1 = emit (Log ''MCP client connected to chrome-devtools-mcp'') w in
           case rawMcpClient m of
             None \<Rightarrow> (Inl (Error ''MCP client not connected''), m, w1)
           | Some c \<Rightarrow> (Inr (), m, emit (ListTools c) w1)))"

text \<open>After \<^verbatim>\<open>listTools\<close> has settled: the catalog is replaced by the response.\<close>

definition discoverTools_finish ::
  "js_error + McpTool list \<Rightarrow> BrowserManager \<Rightarrow> world \<Rightarrow> (js_error + unit) \<times> BrowserManager \<times> world" where
  "discoverTools_finish rl m w =
     (case rl of
        Inl e \<Rightarrow> (Inl e, m, w)
      | Inr tools \<Rightarrow>
          (Inr (), m\<lparr>discoveredTools := tools\<rparr>,
           emit (Log (''Discovered '' @ show_nat (length tools)
                      @ '' tools from chrome-devtools-mcp: ''
                      @ js_join '', '' (map name tools))) w))"

subsection \<open>The methods run alone\<close>

text \<open>
  A method running with nothing else touching the manager between its awaits is the
  composition of its parts. \<open>rc\<close> is how \<^verbatim>\<open>connect\<close> settles and \<open>rl\<close> how
  \<^verbatim>\<open>listTools\<close> settles, if the method gets to ask.
\<close>

definition connectMcp ::
  "js_error + unit \<Rightarrow> js_error + McpTool list \<Rightarrow> BrowserManager \<Rightarrow> world
     \<Rightarrow> (js_error + unit) \<times> BrowserManager \<times> world" where
  "connectMcp rc rl m w =
     (let (m1, w1) = connectMcp_start m w in
      case connectMcp_connected rc m1 w1 of
        (Inl e, m2, w2) \<Rightarrow> (Inl e, m2, w2)
      | (Inr _, m2, w2) \<Rightarrow> discoverTools_finish rl m2 w2)"

definition ensureConnection ::
  "js_error + unit \<Rightarrow> js_error + McpTool list \<Rightarrow> BrowserManager \<Rightarrow> world
     \<Rightarrow> (js_error + unit) \<times> BrowserManager \<times> world" where
  "ensureConnection rc rl m w =
     (if rawMcpClient m \<noteq> None then (Inr (), m, w) else connectMcp rc rl m w)"

definition getDiscoveredTools ::
  "js_error + unit \<Rightarrow> js_error + McpTool list \<Rightarrow> BrowserManager \<Rightarrow> world
     \<Rightarrow> (js_error + McpTool list) \<times> BrowserManager \<times> world" where
  "getDiscoveredTools rc rl m w =
     (case ensureConnection rc rl m w of
        (Inl e, m1, w1) \<Rightarrow> (Inl e, m1, w1)
      | (Inr _, m1, w1) \<Rightarrow> (Inr (discoveredTools m1), m1, w1))"

definition getRawMcpClient ::
  "js_error + unit \<Rightarrow> js_error + McpTool list \<Rightarrow> BrowserManager \<Rightarrow> world
     \<Rightarrow> (js_error + ref) \<times> BrowserManager \<times> world" where
  "getRawMcpClient rc rl m w =
     (case rawMcpClient m of
        Some c \<Rightarrow> (Inr c, m, w)
      | None \<Rightarrow>
          (case ensureConnection rc rl m w of
             (Inl e, m1, w1) \<Rightarrow> (Inl e, m1, w1)
           | (Inr _, m1, w1) \<Rightarrow>
               (case rawMcpClient m1 of
                  None \<Rightarrow> (Inl (Error ''Failed to initialize chrome-devtools MCP client''), m1, w1)
                | Some c \<Rightarrow> (Inr c, m1, w1))))"

text \<open>
  \<^verbatim>\<open>close\<close>. \<open>r1\<close> is how the client's \<^verbatim>\<open>close\<close> settles and \<open>r2\<close> how the
  transport's does, when they are asked. The method has no \<^verbatim>\<open>throw\<close> outside its two
  \<^verbatim>\<open>try\<close> blocks; the result is kept a sum so that its caller's \<^verbatim>\<open>catch\<close> has
  something to catch.
\<close>

definition close_client :: "js_error + unit \<Rightarrow> BrowserManager \<Rightarrow> world \<Rightarrow> BrowserManager \<times> world" where
  "close_client r1 m w =
     (case rawMcpClient m of
        None \<Rightarrow> (m, w)
      | Some c \<Rightarrow>
          (let w1 = emit (CloseClient c) w;
               w2 = (case r1 of
                       Inl e \<Rightarrow> emit (LogError (''Error closing MCP client: '' @ errorMsg e)) w1
                     | Inr _ \<Rightarrow> w1)
           in (m\<lparr>rawMcpClient := None\<rparr>, w2)))"

definition close_transport :: "js_error + unit \<Rightarrow> BrowserManager \<Rightarrow> world \<Rightarrow> BrowserManager \<times> world" where
  "close_transport r2 m w =
     (case mcpTransport m of
        None \<Rightarrow> (m, w)
      | Some t \<Rightarrow>
          (let w1 = emit (CloseTransport t) w;
               w2 = (case r2 of
                       Inl e \<Rightarrow> emit (LogError (''Error closing MCP transport: '' @ errorMsg e)) w1
                     | Inr _ \<Rightarrow> w1)
           in (m\<lparr>mcpTransport := None\<rparr>, w2)))"

definition close ::
  "js_error + unit \<Rightarrow> js_error + unit \<Rightarrow> BrowserManager \<Rightarrow> world
     \<Rightarrow> (js_error + unit) \<times> BrowserManager \<times> world" where
  "close r1 r2 m w =
     (let (m1, w1) = close_client r1 m w;
          (m2, w2) = close_transport r2 m1 w1
      in (Inr (), m2\<lparr>discoveredTools := []\<rparr>, w2))"

text \<open>
  \<^verbatim>\<open>cleanupBrowserAgent\<close>, over any \<^verbatim>\<open>close\<close> (the tests hand it a manager whose
  \<^verbatim>\<open>close\<close> rejects): the rejection is logged, nothing is rethrown.
\<close>

definition cleanupBrowserAgent_with ::
  "('m \<Rightarrow> world \<Rightarrow> (js_error + unit) \<times> 'm \<times> world) \<Rightarrow> 'm \<Rightarrow> world
     \<Rightarrow> (js_error + unit) \<times> 'm \<times> world" where
  "cleanupBrowserAgent_with close_method m w =
     (case close_method m w of
        (Inr _, m1, w1) \<Rightarrow> (Inr (), m1, emit (Log ''Browser agent cleanup complete'') w1)
      | (Inl e, m1, w1) \<Rightarrow>
          (Inr (), m1, emit (LogError (''Error during browser cleanup: '' @ errorMsg e)) w1))"

definition cleanupBrowserAgent ::
  "js_error + unit \<Rightarrow> js_error + unit \<Rightarrow> BrowserManager \<Rightarrow> world
     \<Rightarrow> (js_error + unit) \<times> BrowserManager \<times> world" where
  "cleanupBrowserAgent r1 r2 = cleanupBrowserAgent_with (close r1 r2)"

section \<open>\<^verbatim>\<open>callTool\<close>\<close>

text \<open>
  An \<^verbatim>\<open>AbortSignal\<close>: whether it is aborted, and its \<^verbatim>\<open>reason\<close>, which may be
  undefined.
\<close>

record AbortSignal =
  aborted :: bool
  reason :: "js_error option"

text \<open>\<^verbatim>\<open>signal.reason ?? new Error('Operation cancelled')\<close>.\<close>

definition abort_reason :: "js_error option \<Rightarrow> js_error" where
  "abort_reason r = (case r of Some e \<Rightarrow> e | None \<Rightarrow> Error ''Operation cancelled'')"

text \<open>
  What can happen while a call is pending, in the order in which it happens: the signal
  is aborted (with the reason it then carries), or a request the call waits for settles.
  The SDK is given the fixed timeout with the request, so a call that is not answered in
  time settles too, as a rejection.
\<close>

datatype event =
    AbortFired "js_error option"
  | ConnectSettled "js_error + unit"
  | ListToolsSettled "js_error + McpTool list"
  | RemoteSettled "js_error + raw_response"

text \<open>
  Where a pending \<^verbatim>\<open>callTool\<close> stands: inside \<^verbatim>\<open>getRawMcpClient\<close> waiting for
  \<^verbatim>\<open>connect\<close> or for \<^verbatim>\<open>listTools\<close>; waiting for the remote call alone (no signal
  was given); in \<^verbatim>\<open>Promise.race\<close>; or settled with its one outcome.
\<close>

datatype call_pc =
    AwaitConnect
  | AwaitListTools
  | AwaitRemote
  | Racing
  | Settled "js_error + McpToolCallResult"

record call =
  pc :: call_pc
  toolName :: string
  arguments :: tool_args
  signal :: "AbortSignal option"
  onAbort :: bool
  mgr :: BrowserManager
  wld :: world

text \<open>
  Lines 261 to 282 of \<^verbatim>\<open>callTool\<close>, once the client is at hand: the request is sent
  with the timeout; without a signal the call waits for it; with a signal the listener
  is added and the race begins. \<open>onAbort\<close> says that the listener is on the signal.
\<close>

definition dispatch :: "ref \<Rightarrow> call \<Rightarrow> call" where
  "dispatch c k =
     (let w1 = emit (CallToolRequest c (toolName k) (arguments k) MCP_TIMEOUT_MS) (wld k) in
      case signal k of
        None \<Rightarrow> k\<lparr>pc := AwaitRemote, wld := w1\<rparr>
      | Some s \<Rightarrow> k\<lparr>pc := Racing, onAbort := True, wld := w1\<rparr>)"

text \<open>
  The end of \<^verbatim>\<open>getRawMcpClient\<close> after its \<^verbatim>\<open>ensureConnection\<close> has returned, and
  on into the dispatch.
\<close>

definition client_obtained :: "call \<Rightarrow> call" where
  "client_obtained k =
     (case rawMcpClient (mgr k) of
        None \<Rightarrow> k\<lparr>pc := Settled (Inl (Error ''Failed to initialize chrome-devtools MCP client''))\<rparr>
      | Some c \<Rightarrow> dispatch c k)"

text \<open>
  The call up to its first wait. An aborted signal is thrown at once. A manager that has
  its client dispatches; one that has not starts \<^verbatim>\<open>connectMcp\<close>. With the client at
  hand the source still suspends once at \<^verbatim>\<open>await this.getRawMcpClient()\<close> before it
  dispatches; here the dispatch belongs to the same step, so an abort falling into that
  one suspension, which the source loses as it loses one during the connect, is not
  among the runs below.
\<close>

definition callTool_start ::
  "string \<Rightarrow> tool_args \<Rightarrow> AbortSignal option \<Rightarrow> BrowserManager \<Rightarrow> world \<Rightarrow> call" where
  "callTool_start n as sg m w =
     (let k = \<lparr> pc = AwaitConnect, toolName = n, arguments = as, signal = sg,
                onAbort = False, mgr = m, wld = w \<rparr> in
      if (case sg of Some s \<Rightarrow> aborted s | None \<Rightarrow> False)
      then k\<lparr>pc := Settled (Inl (abort_reason (case sg of Some s \<Rightarrow> reason s | None \<Rightarrow> None)))\<rparr>
      else
        (case rawMcpClient m of
           Some c \<Rightarrow> dispatch c k
         | None \<Rightarrow>
             (let (m1, w1) = connectMcp_start m w in
              k\<lparr>pc := AwaitConnect, mgr := m1, wld := w1\<rparr>)))"

text \<open>How a settled remote call ends the call: a rejection as it is, a response through
  \<^verbatim>\<open>toResult\<close>.\<close>

definition remote_outcome :: "js_error + raw_response \<Rightarrow> js_error + McpToolCallResult" where
  "remote_outcome rr = (case rr of Inl e \<Rightarrow> Inl e | Inr raw \<Rightarrow> Inr (toResult raw))"

text \<open>
  One event. An abort event happens once per signal, to the listeners that are on the
  signal at that moment: a listener added to a signal that is already aborted is never
  run. In the race the first of the two promises to settle settles the race, and the
  \<^verbatim>\<open>finally\<close> block takes the listener off. An event the call is not waiting for
  passes it by.
\<close>

definition on_abort :: "js_error option \<Rightarrow> call \<Rightarrow> call" where
  "on_abort r k =
     (case signal k of
        None \<Rightarrow> k
      | Some s \<Rightarrow>
          if aborted s then k
          else
            (let k1 = k\<lparr>signal := Some (s\<lparr>aborted := True, reason := r\<rparr>)\<rparr> in
             if pc k = Racing \<and> onAbort k
             then k1\<lparr>pc := Settled (Inl (abort_reason r)), onAbort := False\<rparr>
             else k1))"

definition on_connect :: "js_error + unit \<Rightarrow> call \<Rightarrow> call" where
  "on_connect rc k =
     (if pc k = AwaitConnect
      then (case connectMcp_connected rc (mgr k) (wld k) of
              (Inl e, m1, w1) \<Rightarrow> k\<lparr>pc := Settled (Inl e), mgr := m1, wld := w1\<rparr>
            | (Inr _, m1, w1) \<Rightarrow> k\<lparr>pc := AwaitListTools, mgr := m1, wld := w1\<rparr>)
      else k)"

definition on_listTools :: "js_error + McpTool list \<Rightarrow> call \<Rightarrow> call" where
  "on_listTools rl k =
     (if pc k = AwaitListTools
      then (case discoverTools_finish rl (mgr k) (wld k) of
              (Inl e, m1, w1) \<Rightarrow> k\<lparr>pc := Settled (Inl e), mgr := m1, wld := w1\<rparr>
            | (Inr _, m1, w1) \<Rightarrow> client_obtained (k\<lparr>mgr := m1, wld := w1\<rparr>))
      else k)"

definition on_remote :: "js_error + raw_response \<Rightarrow> call \<Rightarrow> call" where
  "on_remote rr k =
     (if pc k = AwaitRemote then k\<lparr>pc := Settled (remote_outcome rr)\<rparr>
      else if pc k = Racing then k\<lparr>pc := Settled (remote_outcome rr), onAbort := False\<rparr>
      else k)"

fun call_step :: "call \<Rightarrow> event \<Rightarrow> call" where
  "call_step k (AbortFired r) = on_abort r k"
| "call_step k (ConnectSettled rc) = on_connect rc k"
| "call_step k (ListToolsSettled rl) = on_listTools rl k"
| "call_step k (RemoteSettled rr) = on_remote rr k"

text \<open>The call after the events \<open>evs\<close>, in their order.\<close>

definition callTool ::
  "string \<Rightarrow> tool_args \<Rightarrow> AbortSignal option \<Rightarrow> event list \<Rightarrow> BrowserManager \<Rightarrow> world \<Rightarrow> call" where
  "callTool n as sg evs m w = foldl call_step (callTool_start n as sg m w) evs"

text \<open>The outcome delivered to the caller, if the call has settled.\<close>

definition outcome :: "call \<Rightarrow> (js_error + McpToolCallResult) option" where
  "outcome k = (case pc k of Settled r \<Rightarrow> Some r | _ \<Rightarrow> None)"

text \<open>The requests sent to the subprocess for tool calls, as recorded in a world.\<close>

fun is_CallToolRequest :: "action \<Rightarrow> bool" where
  "is_CallToolRequest (CallToolRequest c n as t) = True"
| "is_CallToolRequest _ = False"

definition requests_sent :: "world \<Rightarrow> action list" where
  "requests_sent w = filter is_CallToolRequest (trace w)"

section \<open>\<^verbatim>\<open>McpToolInvocation.execute\<close>\<close>

text \<open>
  \<^verbatim>\<open>execute\<close> awaits \<^verbatim>\<open>callTool\<close> inside \<^verbatim>\<open>try\<close>. \<open>None\<close>: the call is still
  pending. \<open>Some (Inr res)\<close>: \<^verbatim>\<open>execute\<close> returned \<open>res\<close>. \<open>Some (Inl e)\<close> would be
  \<^verbatim>\<open>execute\<close> throwing \<open>e\<close>. The world returned carries the error log line of the
  \<^verbatim>\<open>catch\<close> block.
\<close>

definition execute_settle ::
  "string \<Rightarrow> js_error + McpToolCallResult \<Rightarrow> world \<Rightarrow> (js_error + ToolResult) \<times> world" where
  "execute_settle n r w =
     (case r of
        Inr result \<Rightarrow> (Inr (execute_resolved result), w)
      | Inl e \<Rightarrow>
          (Inr (execute_rejected e),
           emit (LogError (''MCP tool '' @ n @ '' failed: '' @ errorMsg e)) w))"

definition execute ::
  "string \<Rightarrow> tool_args \<Rightarrow> AbortSignal \<Rightarrow> event list \<Rightarrow> BrowserManager \<Rightarrow> world
     \<Rightarrow> ((js_error + ToolResult) \<times> BrowserManager \<times> world) option" where
  "execute n params sg evs m w =
     (let k = callTool n params (Some sg) evs m w in
      case outcome k of
        None \<Rightarrow> None
      | Some r \<Rightarrow> (let (res, w1) = execute_settle n r (wld k) in Some (res, mgr k, w1)))"

section \<open>Concurrent callers of \<^verbatim>\<open>ensureConnection\<close>\<close>

text \<open>
  Several calls of \<^verbatim>\<open>ensureConnection\<close> on one manager, each an asynchronous task.
  A task runs uninterrupted between its awaits, so a run of the system is a sequence of
  steps, each of which lets one caller start or hands one caller the outcome of the
  request it waits for. The parts run are those of \<^verbatim>\<open>connectMcp\<close> above.
\<close>

datatype caller_pc =
    Unstarted
  | WaitConnect
  | WaitListTools
  | Returned "js_error + unit"

record conn_sys =
  callers :: "caller_pc list"
  smgr :: BrowserManager
  swld :: world

datatype sched =
    Call nat
  | ConnectDone nat "js_error + unit"
  | ListToolsDone nat "js_error + McpTool list"

definition conn_init :: "nat \<Rightarrow> BrowserManager \<Rightarrow> world \<Rightarrow> conn_sys" where
  "conn_init n m w = \<lparr> callers = replicate n Unstarted, smgr = m, swld = w \<rparr>"

definition caller_call :: "nat \<Rightarrow> conn_sys \<Rightarrow> conn_sys" where
  "caller_call i s =
     (if i < length (callers s) \<and> callers s ! i = Unstarted
      then
        (if rawMcpClient (smgr s) \<noteq> None
         then s\<lparr>callers := (callers s)[i := Returned (Inr ())]\<rparr>
         else
           (let (m1, w1) = connectMcp_start (smgr s) (swld s) in
            s\<lparr>callers := (callers s)[i := WaitConnect], smgr := m1, swld := w1\<rparr>))
      else s)"

definition caller_connected :: "nat \<Rightarrow> js_error + unit \<Rightarrow> conn_sys \<Rightarrow> conn_sys" where
  "caller_connected i rc s =
     (if i < length (callers s) \<and> callers s ! i = WaitConnect
      then
        (case connectMcp_connected rc (smgr s) (swld s) of
           (Inl e, m1, w1) \<Rightarrow>
             s\<lparr>callers := (callers s)[i := Returned (Inl e)], smgr := m1, swld := w1\<rparr>
         | (Inr _, m1, w1) \<Rightarrow>
             s\<lparr>callers := (callers s)[i := WaitListTools], smgr := m1, swld := w1\<rparr>)
      else s)"

definition caller_listed :: "nat \<Rightarrow> js_error + McpTool list \<Rightarrow> conn_sys \<Rightarrow> conn_sys" where
  "caller_listed i rl s =
     (if i < length (callers s) \<and> callers s ! i = WaitListTools
      then
        (case discoverTools_finish rl (smgr s) (swld s) of
           (r, m1, w1) \<Rightarrow> s\<lparr>callers := (callers s)[i := Returned r], smgr := m1, swld := w1\<rparr>)
      else s)"

fun conn_step :: "conn_sys \<Rightarrow> sched \<Rightarrow> conn_sys" where
  "conn_step s (Call i) = caller_call i s"
| "conn_step s (ConnectDone i rc) = caller_connected i rc s"
| "conn_step s (ListToolsDone i rl) = caller_listed i rl s"

definition conn_run :: "conn_sys \<Rightarrow> sched list \<Rightarrow> conn_sys" where
  "conn_run s sc = foldl conn_step s sc"

text \<open>Transports created (each one launches a subprocess) and connects issued.\<close>

fun is_NewTransport :: "action \<Rightarrow> bool" where
  "is_NewTransport (NewTransport t c as) = True"
| "is_NewTransport _ = False"

fun is_Connect :: "action \<Rightarrow> bool" where
  "is_Connect (Connect c t) = True"
| "is_Connect _ = False"

definition spawned :: "world \<Rightarrow> nat" where
  "spawned w = length (filter is_NewTransport (trace w))"

definition connects :: "world \<Rightarrow> nat" where
  "connects w = length (filter is_Connect (trace w))"

text \<open>The callers that are waiting for the attempt in flight.\<close>

fun is_waiting :: "caller_pc \<Rightarrow> bool" where
  "is_waiting WaitConnect = True"
| "is_waiting WaitListTools = True"
| "is_waiting _ = False"

definition waiting :: "conn_sys \<Rightarrow> nat" where
  "waiting s = length (filter is_waiting (callers s))"

text \<open>
  The claim that all callers observe one outcome, in the words of the specification:
  any two callers that have returned have returned the same.
\<close>

fun returned_outcomes :: "caller_pc list \<Rightarrow> (js_error + unit) list" where
  "returned_outcomes [] = []"
| "returned_outcomes (Returned r # ps) = r # returned_outcomes ps"
| "returned_outcomes (p # ps) = returned_outcomes ps"

definition same_outcome :: "conn_sys \<Rightarrow> bool" where
  "same_outcome s = (length (remdups (returned_outcomes (callers s))) \<le> 1)"

text \<open>
  What every step of the callers keeps: against the world \<open>w0\<close> they started in, no
  transport and no connect more while the manager holds no client, and no caller
  waiting; at most one transport and one connect more once it holds one, and at most one
  caller waiting.
\<close>

definition single_attempt :: "world \<Rightarrow> conn_sys \<Rightarrow> bool" where
  "single_attempt w0 s =
     (if rawMcpClient (smgr s) = None
      then spawned (swld s) = spawned w0 \<and> connects (swld s) = connects w0 \<and> waiting s = 0
      else spawned (swld s) \<le> Suc (spawned w0) \<and> connects (swld s) \<le> Suc (connects w0)
           \<and> waiting s \<le> 1)"

section \<open>The bridge: \<^verbatim>\<open>createMcpDeclarativeTools\<close> and \<^verbatim>\<open>createBrowserAgentDefinition\<close>\<close>

record FunctionDeclaration =
  fd_name :: string
  fd_description :: string
  parametersJsonSchema :: json

text \<open>\<^verbatim>\<open>{ type: 'object', properties: {} }\<close>.\<close>

definition empty_object_schema :: json where
  "empty_object_schema = JObj [(''type'', JStr ''object''), (''properties'', JObj [])]"

definition convertMcpToolToFunctionDeclaration :: "McpTool \<Rightarrow> FunctionDeclaration" where
  "convertMcpToolToFunctionDeclaration mcpTool =
     \<lparr> fd_name = name mcpTool,
       fd_description = (case description mcpTool of Some d \<Rightarrow> d | None \<Rightarrow> []),
       parametersJsonSchema =
         (case inputSchema mcpTool of Some sch \<Rightarrow> sch | None \<Rightarrow> empty_object_schema) \<rparr>"

text \<open>
  A \<^verbatim>\<open>McpDeclarativeTool\<close> object: the manager it dispatches to and the message bus it
  was given, both by reference, and what its constructor hands to \<^verbatim>\<open>DeclarativeTool\<close>.
\<close>

record McpDeclarativeTool =
  browserManager :: ref
  tool_name :: string
  displayName :: string
  tool_description :: string
  parameterSchema :: json
  messageBus :: ref
  isOutputMarkdown :: bool
  canUpdateOutput :: bool

definition new_McpDeclarativeTool ::
  "ref \<Rightarrow> string \<Rightarrow> string \<Rightarrow> json \<Rightarrow> ref \<Rightarrow> McpDeclarativeTool" where
  "new_McpDeclarativeTool bm n d sch mb =
     \<lparr> browserManager = bm, tool_name = n, displayName = n, tool_description = d,
       parameterSchema = sch, messageBus = mb,
       isOutputMarkdown = True, canUpdateOutput = False \<rparr>"

text \<open>
  \<^verbatim>\<open>McpDeclarativeTool.build\<close> makes the invocation: it carries the tool's manager, the
  tool's name and the parameters it was given. Its \<^verbatim>\<open>shouldConfirmExecute\<close> answers
  \<^verbatim>\<open>false\<close> without asking the message bus; its \<^verbatim>\<open>execute\<close> is the \<open>execute\<close>
  above, for its name and parameters, on the manager object it refers to.
\<close>

record McpToolInvocation =
  inv_browserManager :: ref
  inv_toolName :: string
  inv_params :: tool_args
  inv_messageBus :: ref

definition build :: "McpDeclarativeTool \<Rightarrow> tool_args \<Rightarrow> McpToolInvocation" where
  "build t params =
     \<lparr> inv_browserManager = browserManager t, inv_toolName = tool_name t,
       inv_params = params, inv_messageBus = messageBus t \<rparr>"

definition getDescription :: "McpToolInvocation \<Rightarrow> string" where
  "getDescription iv = ''Calling MCP tool: '' @ inv_toolName iv"

definition shouldConfirmExecute :: "McpToolInvocation \<Rightarrow> bool" where
  "shouldConfirmExecute iv = False"

definition invocation_execute ::
  "McpToolInvocation \<Rightarrow> AbortSignal \<Rightarrow> event list \<Rightarrow> BrowserManager \<Rightarrow> world
     \<Rightarrow> ((js_error + ToolResult) \<times> BrowserManager \<times> world) option" where
  "invocation_execute iv sg evs m w = execute (inv_toolName iv) (inv_params iv) sg evs m w"

text \<open>The callback of \<^verbatim>\<open>mcpTools.map\<close> in \<^verbatim>\<open>createMcpDeclarativeTools\<close>.\<close>

definition wrap_tool :: "ref \<Rightarrow> ref \<Rightarrow> McpTool \<Rightarrow> McpDeclarativeTool" where
  "wrap_tool bm mb mcpTool =
     (let schema = convertMcpToolToFunctionDeclaration mcpTool in
      new_McpDeclarativeTool bm (name mcpTool)
        (case description mcpTool of Some d \<Rightarrow> d | None \<Rightarrow> [])
        (parametersJsonSchema schema) mb)"

text \<open>The map itself: one new object per descriptor, in order, each at a new reference.\<close>

fun wrap_tools :: "ref \<Rightarrow> ref \<Rightarrow> McpTool list \<Rightarrow> world \<Rightarrow> (ref \<times> McpDeclarativeTool) list \<times> world" where
  "wrap_tools bm mb [] w = ([], w)"
| "wrap_tools bm mb (t # ts) w =
     (let (r, w1) = fresh w;
          (rest, w2) = wrap_tools bm mb ts w1
      in ((r, wrap_tool bm mb t) # rest, w2))"

text \<open>
  \<^verbatim>\<open>createMcpDeclarativeTools\<close>, for the manager object at \<open>bm\<close> whose fields are
  \<open>m\<close>. It returns the new tool objects with their references.
\<close>

definition createMcpDeclarativeTools ::
  "ref \<Rightarrow> ref \<Rightarrow> js_error + unit \<Rightarrow> js_error + McpTool list \<Rightarrow> BrowserManager \<Rightarrow> world
     \<Rightarrow> (js_error + (ref \<times> McpDeclarativeTool) list) \<times> BrowserManager \<times> world" where
  "createMcpDeclarativeTools bm mb rc rl m w =
     (case getDiscoveredTools rc rl m w of
        (Inl e, m1, w1) \<Rightarrow> (Inl e, m1, w1)
      | (Inr mcpTools, m1, w1) \<Rightarrow>
          (let w2 = emit (Log (''Creating '' @ show_nat (length mcpTools)
                               @ '' declarative tools for browser agent'')) w1;
               (ts, w3) = wrap_tools bm mb mcpTools w2
           in (Inr ts, m1, w3)))"

text \<open>
  The objects of the program: the world, the manager objects and the tool objects, each
  kind by reference.
\<close>

record heap =
  hworld :: world
  managers :: "ref \<rightharpoonup> BrowserManager"
  tools :: "ref \<rightharpoonup> McpDeclarativeTool"

text \<open>
  What \<^verbatim>\<open>createBrowserAgentDefinition\<close> returns, as far as it is built here: the tools
  of \<^verbatim>\<open>definition.toolConfig\<close> and the manager, by reference.
\<close>

record bridge =
  toolConfig_tools :: "ref list"
  bridge_manager :: ref

fun store_tools ::
  "(ref \<times> McpDeclarativeTool) list \<Rightarrow> (ref \<rightharpoonup> McpDeclarativeTool) \<Rightarrow> (ref \<rightharpoonup> McpDeclarativeTool)" where
  "store_tools [] tm = tm"
| "store_tools ((r, t) # ts) tm = store_tools ts (tm(r \<mapsto> t))"

text \<open>
  \<open>mb\<close> is the caller's message bus, \<open>po\<close> says whether a \<^verbatim>\<open>printOutput\<close> callback
  was given, \<open>rc\<close> and \<open>rl\<close> are how the subprocess answers the connect and the
  discovery.
\<close>

definition createBrowserAgentDefinition ::
  "Config \<Rightarrow> ref \<Rightarrow> bool \<Rightarrow> js_error + unit \<Rightarrow> js_error + McpTool list \<Rightarrow> heap
     \<Rightarrow> (js_error + bridge) \<times> heap" where
  "createBrowserAgentDefinition cfg mb po rc rl h =
     (let w0 = emit (Log ''Creating browser agent definition with isolated MCP tools...'') (hworld h);
          (bm, w1) = fresh w0
      in case ensureConnection rc rl (new_BrowserManager cfg) w1 of
           (Inl e, m1, w2) \<Rightarrow> (Inl e, h\<lparr>hworld := w2, managers := (managers h)(bm \<mapsto> m1)\<rparr>)
         | (Inr _, m1, w2) \<Rightarrow>
             (let w3 = (if po then emit (PrintOutput ''Browser connected with isolated MCP client.'') w2
                        else w2)
              in case createMcpDeclarativeTools bm mb rc rl m1 w3 of
                   (Inl e, m2, w4) \<Rightarrow>
                     (Inl e, h\<lparr>hworld := w4, managers := (managers h)(bm \<mapsto> m2)\<rparr>)
                 | (Inr ts, m2, w4) \<Rightarrow>
                     (let w5 = emit (Log (''Created '' @ show_nat (length ts)
                                          @ '' isolated MCP tools for browser agent: ''
                                          @ js_join '', '' (map (\<lambda>(r, t). tool_name t) ts))) w4
                      in (Inr \<lparr> toolConfig_tools = map fst ts, bridge_manager = bm \<rparr>,
                          h\<lparr>hworld := w5, managers := (managers h)(bm \<mapsto> m2),
                            tools := store_tools ts (tools h)\<rparr>))))"

text \<open>
  The fields of the manager a build leaves behind when the connect and the discovery
  succeed: \<open>b\<close> is the manager's own reference, the client and the transport are the
  next two.
\<close>

definition built_manager :: "Config \<Rightarrow> ref \<Rightarrow> McpTool list \<Rightarrow> BrowserManager" where
  "built_manager cfg b ds =
     \<lparr> config = cfg, rawMcpClient = Some (Suc b), mcpTransport = Some (Suc (Suc b)),
       discoveredTools = ds \<rparr>"

text \<open>A method of the manager object at \<open>bm\<close>, run on the heap.\<close>

definition on_manager ::
  "ref \<Rightarrow> (BrowserManager \<Rightarrow> world \<Rightarrow> 'r \<times> BrowserManager \<times> world) \<Rightarrow> heap \<Rightarrow> 'r option \<times> heap" where
  "on_manager bm method h =
     (case managers h bm of
        None \<Rightarrow> (None, h)
      | Some m \<Rightarrow>
          (case method m (hworld h) of
             (r, m1, w1) \<Rightarrow> (Some r, h\<lparr>hworld := w1, managers := (managers h)(bm \<mapsto> m1)\<rparr>)))"

section \<open>The specification's reading of the text payload\<close>

text \<open>
  Following the specification's words, not the source: ``the concatenation of all
  text-typed content items (joined by newline)'', in source order, skipping the items
  that are not text-typed.
\<close>

definition spec_joined_text :: "McpContentItem list \<Rightarrow> string" where
  "spec_joined_text cs =
     js_join newline (map (\<lambda>c. str_or_empty (ctext c)) (filter (\<lambda>c. ctype c = Text) cs))"

text \<open>The content items of a result, none when it has no content array.\<close>

definition content_items :: "McpToolCallResult \<Rightarrow> McpContentItem list" where
  "content_items result = (case content result of Some cs \<Rightarrow> cs | None \<Rightarrow> [])"

text \<open>An item that carries a text that is not empty.\<close>

definition has_text :: "McpContentItem \<Rightarrow> bool" where
  "has_text c = truthy_str (ctext c)"

text \<open>Items to try the normalisation on.\<close>

definition text_item :: "string \<Rightarrow> McpContentItem" where
  "text_item s = \<lparr> ctype = Text, ctext = Some s, cdata = None, mimeType = None \<rparr>"

definition image_item :: "string \<Rightarrow> string \<Rightarrow> McpContentItem" where
  "image_item d mt = \<lparr> ctype = Image, ctext = None, cdata = Some d, mimeType = Some mt \<rparr>"

text \<open>
  The closes a world has seen, and the closes \<^verbatim>\<open>close\<close> owes a manager: its
  client's first, then its transport's.
\<close>

fun is_close :: "action \<Rightarrow> bool" where
  "is_close (CloseClient c) = True"
| "is_close (CloseTransport t) = True"
| "is_close _ = False"

definition closes_due :: "BrowserManager \<Rightarrow> action list" where
  "closes_due m =
     (case rawMcpClient m of Some c \<Rightarrow> [CloseClient c] | None \<Rightarrow> [])
     @ (case mcpTransport m of Some t \<Rightarrow> [CloseTransport t] | None \<Rightarrow> [])"

text \<open>A response of the subprocess to try the calls on: one text item, no error flag.\<close>

definition ok_response :: raw_response where
  "ok_response =
     \<lparr> raw_content = Some [\<lparr> raw_type = Some ''text'', raw_text = Some ''clicked'',
                              raw_data = None, raw_mimeType = None \<rparr>],
       raw_isError = None \<rparr>"

text \<open>A configuration, an empty world and an empty heap to run the methods on.\<close>

definition config0 :: Config where
  "config0 = \<lparr> headless = False, chromeProfilePath = None \<rparr>"

definition world0 :: world where
  "world0 = \<lparr> next_ref = 0, trace = [], registry = [] \<rparr>"

definition heap0 :: heap where
  "heap0 = \<lparr> hworld = world0, managers = Map.empty, tools = Map.empty \<rparr>"

text \<open>A manager that holds a client and a transport, as after a connect.\<close>

definition connected0 :: BrowserManager where
  "connected0 = \<lparr> config = config0, rawMcpClient = Some 0, mcpTransport = Some 1,
                  discoveredTools = [] \<rparr>"

section \<open>Response normalisation\<close>

lemma filter_text_has_text:
  "filter (\<lambda>c. ctype c = Text) (filter has_text cs) =
   filter (\<lambda>c. ctype c = Text \<and> truthy_str (ctext c)) cs"
  by (induction cs) (auto simp: has_text_def)

lemma textContent_spec:
  "textContent result = spec_joined_text (filter has_text (content_items result))"
  unfolding textContent_def spec_joined_text_def content_items_def filter_text_has_text
  by (simp split: option.splits)

lemma str_or_nonempty: "b \<noteq> [] \<Longrightarrow> str_or a b \<noteq> []"
  by (simp add: str_or_def)

text \<open>
  C6, as the code has it. For every response without the error flag, the payload is the
  texts of the text-typed items that carry a text that is not empty, in source order and
  joined by newline, items of another type being skipped; when that is empty (no such
  item), the payload is the fixed message. The payload is never empty.
\<close>

theorem success_payload:
  assumes "isError result \<noteq> Some True"
  shows "llmContent (execute_resolved result) =
           (if spec_joined_text (filter has_text (content_items result)) = []
            then ''Tool executed successfully.''
            else spec_joined_text (filter has_text (content_items result)))
         \<and> returnDisplay (execute_resolved result) = llmContent (execute_resolved result)
         \<and> error (execute_resolved result) = None
         \<and> llmContent (execute_resolved result) \<noteq> []
         \<and> (filter (\<lambda>c. ctype c = Text \<and> has_text c) (content_items result) = []
              \<longrightarrow> llmContent (execute_resolved result) = ''Tool executed successfully.'')"
proof -
  let ?t = "textContent result"
  have t: "?t = spec_joined_text (filter has_text (content_items result))"
    by (rule textContent_spec)
  have l: "llmContent (execute_resolved result) = str_or ?t ''Tool executed successfully.''"
    and d: "returnDisplay (execute_resolved result) = str_or ?t ''Tool executed successfully.''"
    and e: "error (execute_resolved result) = None"
    using assms by (simp_all add: execute_resolved_def Let_def)
  have ne: "llmContent (execute_resolved result) \<noteq> []"
    unfolding l by (rule str_or_nonempty) simp
  have none: "?t = []" if "filter (\<lambda>c. ctype c = Text \<and> has_text c) (content_items result) = []"
    using that by (simp add: textContent_def content_items_def has_text_def split: option.splits)
  show ?thesis
    using l d e ne none t by (auto simp: str_or_def)
qed

theorem success_payload_witness:
  "isError \<lparr> content = Some [text_item ''a'', image_item ''aGk='' ''image/png'', text_item ''b''],
             isError = None \<rparr> \<noteq> Some True
   \<and> llmContent (execute_resolved
        \<lparr> content = Some [text_item ''a'', image_item ''aGk='' ''image/png'', text_item ''b''],
          isError = None \<rparr>) = ''a'' @ newline @ ''b''
   \<and> llmContent (execute_resolved \<lparr> content = Some [], isError = None \<rparr>)
        = ''Tool executed successfully.''"
  using success_payload
          [of "\<lparr> content = Some [text_item ''a'', image_item ''aGk='' ''image/png'', text_item ''b''],
                 isError = None \<rparr>"]
        success_payload [of "\<lparr> content = Some [], isError = None \<rparr>"]
  by (simp add: spec_joined_text_def content_items_def has_text_def text_item_def
        image_item_def newline_def)

text \<open>
  C6 as stated fails where a text-typed item has the empty text: the claim joins all
  three text-typed items, the code drops the empty one and its separator.
\<close>

theorem success_payload_counterexample:
  "llmContent (execute_resolved
     \<lparr> content = Some [text_item ''a'', text_item '''', text_item ''b''], isError = Some False \<rparr>)
   \<noteq> spec_joined_text [text_item ''a'', text_item '''', text_item ''b'']"
  by (simp add: execute_resolved_def Let_def textContent_def spec_joined_text_def
        text_item_def str_or_def newline_def)

text \<open>
  C7, as the code has it. For every response with the error flag, \<^verbatim>\<open>execute\<close> returns
  (it does not throw) a result with an error whose message is the texts of the text-typed
  items that carry a text that is not empty, joined by newline in source order; the
  content and the display are that message after \<^verbatim>\<open>Error: \<close>.
\<close>

theorem remote_error_detail:
  assumes "isError result = Some True"
  shows "execute_settle n (Inr result) w = (Inr (execute_resolved result), w)
         \<and> error (execute_resolved result)
             = Some (spec_joined_text (filter has_text (content_items result)))
         \<and> llmContent (execute_resolved result)
             = ''Error: '' @ spec_joined_text (filter has_text (content_items result))
         \<and> returnDisplay (execute_resolved result) = llmContent (execute_resolved result)"
  using assms
  by (simp add: execute_settle_def execute_resolved_def Let_def textContent_spec)

theorem remote_error_detail_witness:
  "isError \<lparr> content = Some [text_item ''boom''], isError = Some True \<rparr> = Some True
   \<and> error (execute_resolved \<lparr> content = Some [text_item ''boom''], isError = Some True \<rparr>)
       = Some ''boom''
   \<and> llmContent (execute_resolved \<lparr> content = Some [text_item ''boom''], isError = Some True \<rparr>)
       = ''Error: boom''"
  using remote_error_detail [of "\<lparr> content = Some [text_item ''boom''], isError = Some True \<rparr>"]
  by (simp add: spec_joined_text_def content_items_def has_text_def text_item_def)

theorem remote_error_detail_counterexample:
  "error (execute_resolved
     \<lparr> content = Some [text_item ''a'', text_item '''', text_item ''b''], isError = Some True \<rparr>)
   \<noteq> Some (spec_joined_text [text_item ''a'', text_item '''', text_item ''b''])"
  by (simp add: execute_resolved_def Let_def textContent_def spec_joined_text_def
        text_item_def newline_def)

section \<open>A settled call stays settled\<close>

lemma call_step_settled:
  assumes "pc k = Settled r"
  shows "pc (call_step k ev) = Settled r \<and> mgr (call_step k ev) = mgr k
         \<and> wld (call_step k ev) = wld k"
  using assms
  by (cases ev)
     (auto simp: on_abort_def on_connect_def on_listTools_def on_remote_def Let_def
           split: option.splits)

lemma call_run_settled:
  assumes "pc k = Settled r"
  shows "pc (foldl call_step k evs) = Settled r \<and> mgr (foldl call_step k evs) = mgr k
         \<and> wld (foldl call_step k evs) = wld k"
  using assms
proof (induction evs arbitrary: k)
  case Nil
  then show ?case by simp
next
  case (Cons ev evs)
  from call_step_settled [OF Cons.prems, of ev] Cons.IH [of "call_step k ev"]
  show ?case by simp
qed

lemma pc_cases:
  obtains "pc k = AwaitConnect" | "pc k = AwaitListTools" | "pc k = AwaitRemote"
    | "pc k = Racing" | r where "pc k = Settled r"
  by (cases "pc k") auto

lemma dispatch_pc: "pc (dispatch c k) = AwaitRemote \<or> pc (dispatch c k) = Racing"
  by (simp add: dispatch_def Let_def split: option.splits)

lemma client_obtained_pc:
  "pc (client_obtained k) = AwaitRemote \<or> pc (client_obtained k) = Racing
   \<or> (\<exists>r. pc (client_obtained k) = Settled r)"
  using dispatch_pc by (auto simp: client_obtained_def split: option.splits)

lemma on_remote_settles:
  assumes "pc k = AwaitRemote \<or> pc k = Racing \<or> (\<exists>r. pc k = Settled r)"
  shows "\<exists>r. pc (on_remote rr k) = Settled r"
  using assms by (auto simp: on_remote_def)

lemma on_listTools_pc:
  assumes "pc k \<noteq> AwaitConnect"
  shows "pc (on_listTools rl k) = AwaitRemote \<or> pc (on_listTools rl k) = Racing
         \<or> (\<exists>r. pc (on_listTools rl k) = Settled r)"
proof (cases "pc k = AwaitListTools")
  case True
  obtain r m1 w1 where d: "discoverTools_finish rl (mgr k) (wld k) = (r, m1, w1)"
    by (cases "discoverTools_finish rl (mgr k) (wld k)") auto
  show ?thesis
  proof (cases r)
    case (Inl e)
    with True d show ?thesis by (simp add: on_listTools_def)
  next
    case (Inr u)
    with True d client_obtained_pc [of "k\<lparr>mgr := m1, wld := w1\<rparr>"]
    show ?thesis by (simp add: on_listTools_def)
  qed
next
  case False
  with assms show ?thesis
    by (cases k rule: pc_cases) (simp_all add: on_listTools_def)
qed

lemma on_connect_pc: "pc (on_connect rc k) \<noteq> AwaitConnect"
proof (cases "pc k = AwaitConnect")
  case True
  obtain r m1 w1 where d: "connectMcp_connected rc (mgr k) (wld k) = (r, m1, w1)"
    by (cases "connectMcp_connected rc (mgr k) (wld k)") auto
  with True show ?thesis by (cases r) (simp_all add: on_connect_def)
next
  case False
  then show ?thesis by (simp add: on_connect_def)
qed

lemma call_settles:
  "\<exists>r. pc (foldl call_step k [ConnectSettled rc, ListToolsSettled rl, RemoteSettled rr])
        = Settled r"
  using on_remote_settles [OF on_listTools_pc [OF on_connect_pc [of rc k], of rl], of rr]
  by simp

section \<open>A signal aborted before the call\<close>

lemma callTool_start_aborted:
  assumes "aborted sg"
  shows "pc (callTool_start n as (Some sg) m w) = Settled (Inl (abort_reason (reason sg)))"
    and "mgr (callTool_start n as (Some sg) m w) = m"
    and "wld (callTool_start n as (Some sg) m w) = w"
  using assms by (simp_all add: callTool_start_def Let_def)

text \<open>
  C4. A call whose signal is already aborted when it is made fails at once, before any
  event, with the signal's reason (or the error ``Operation cancelled'' when the signal
  has none). Whatever happens afterwards, that stays the outcome, the manager is as it
  was and nothing has been done to the outside: no connect, no request to the subprocess.
\<close>

theorem callTool_pre_aborted:
  assumes "aborted sg"
  shows "outcome (callTool n as (Some sg) [] m w) = Some (Inl (abort_reason (reason sg)))
         \<and> outcome (callTool n as (Some sg) evs m w) = Some (Inl (abort_reason (reason sg)))
         \<and> mgr (callTool n as (Some sg) evs m w) = m
         \<and> wld (callTool n as (Some sg) evs m w) = w
         \<and> requests_sent (wld (callTool n as (Some sg) evs m w)) = requests_sent w"
  using callTool_start_aborted [OF assms, of n as m w]
        call_run_settled [of "callTool_start n as (Some sg) m w"
                             "Inl (abort_reason (reason sg))" evs]
  by (simp add: callTool_def outcome_def)

theorem callTool_pre_aborted_witness:
  "aborted \<lparr> aborted = True, reason = None \<rparr>
   \<and> outcome (callTool ''click'' [(''uid'', JStr ''87_4'')]
        (Some \<lparr> aborted = True, reason = None \<rparr>)
        [RemoteSettled (Inr \<lparr> raw_content = None, raw_isError = None \<rparr>)] connected0 world0)
     = Some (Inl (Error ''Operation cancelled''))
   \<and> wld (callTool ''click'' [(''uid'', JStr ''87_4'')]
        (Some \<lparr> aborted = True, reason = None \<rparr>)
        [RemoteSettled (Inr \<lparr> raw_content = None, raw_isError = None \<rparr>)] connected0 world0)
     = world0"
  using callTool_pre_aborted [of "\<lparr> aborted = True, reason = None \<rparr>" "''click''"
          "[(''uid'', JStr ''87_4'')]" connected0 world0
          "[RemoteSettled (Inr \<lparr> raw_content = None, raw_isError = None \<rparr>)]"]
  by (simp add: abort_reason_def)

section \<open>\<^verbatim>\<open>execute\<close> returns, whatever \<^verbatim>\<open>callTool\<close> does\<close>

lemma execute_settle_Inr: "\<exists>res w1. execute_settle n r w = (Inr res, w1)"
  by (cases r) (simp_all add: execute_settle_def)

lemma execute_of_outcome:
  assumes "outcome (callTool n params (Some sg) evs m w) = Some r"
  shows "execute n params sg evs m w =
           Some (fst (execute_settle n r (wld (callTool n params (Some sg) evs m w))),
                 mgr (callTool n params (Some sg) evs m w),
                 snd (execute_settle n r (wld (callTool n params (Some sg) evs m w))))"
  using assms by (simp add: execute_def Let_def split_beta)

lemma execute_rejected_outcome:
  assumes "outcome (callTool n params (Some sg) evs m w) = Some (Inl e)"
  shows "\<exists>m1 w1. execute n params sg evs m w = Some (Inr (execute_rejected e), m1, w1)"
  using execute_of_outcome [OF assms] by (simp add: execute_settle_def)

lemma callTool_append:
  "callTool n as sg (evs @ evs') m w = foldl call_step (callTool n as sg evs m w) evs'"
  by (simp add: callTool_def)

text \<open>
  C10. \<^verbatim>\<open>execute\<close> never throws: while the call is pending it has not returned, and
  otherwise it has returned a result. It does return once the requests the call can wait
  for have settled. Whenever \<^verbatim>\<open>callTool\<close> throws \<open>e\<close>, the result is the failure
  built from the message of \<open>e\<close> alone, with \<^verbatim>\<open>Error: \<close> before it in the content and
  the display; so it is for a signal aborted before the call, for a signal aborted during
  the race, for a remote call that is rejected (as it is on the timeout) and for a
  connect that fails. Two exceptions with one message give one result.
\<close>

theorem execute_never_throws:
  "(\<forall>e m1 w1. execute n params sg evs m w \<noteq> Some (Inl e, m1, w1))
   \<and> (\<exists>res m1 w1.
        execute n params sg (evs @ [ConnectSettled rc, ListToolsSettled rl, RemoteSettled rr]) m w
          = Some (Inr res, m1, w1))
   \<and> (outcome (callTool n params (Some sg) evs m w) = Some (Inl e) \<longrightarrow>
        (\<exists>m1 w1. execute n params sg evs m w =
           Some (Inr \<lparr> llmContent = ''Error: '' @ errorMsg e,
                       returnDisplay = ''Error: '' @ errorMsg e,
                       error = Some (errorMsg e) \<rparr>, m1, w1)))
   \<and> (aborted sg \<longrightarrow>
        (\<exists>m1 w1. execute n params sg evs m w =
           Some (Inr (execute_rejected (abort_reason (reason sg))), m1, w1)))
   \<and> (\<not> aborted sg \<and> rawMcpClient m \<noteq> None \<longrightarrow>
        (\<exists>m1 w1. execute n params sg [AbortFired r] m w =
           Some (Inr (execute_rejected (abort_reason r)), m1, w1)))
   \<and> (\<not> aborted sg \<and> rawMcpClient m \<noteq> None \<longrightarrow>
        (\<exists>m1 w1. execute n params sg [RemoteSettled (Inl e)] m w =
           Some (Inr (execute_rejected e), m1, w1)))
   \<and> (\<not> aborted sg \<and> rawMcpClient m = None \<longrightarrow>
        (\<exists>m1 w1. execute n params sg [ConnectSettled (Inl e)] m w =
           Some (Inr (execute_rejected e), m1, w1)))
   \<and> (errorMsg e = errorMsg e' \<longrightarrow> execute_rejected e = execute_rejected e')"
proof (intro conjI allI impI)
  fix e0 m1 w1
  show "execute n params sg evs m w \<noteq> Some (Inl e0, m1, w1)"
  proof (cases "outcome (callTool n params (Some sg) evs m w)")
    case None
    then show ?thesis by (simp add: execute_def Let_def)
  next
    case (Some r)
    from execute_settle_Inr [of n r "wld (callTool n params (Some sg) evs m w)"]
         execute_of_outcome [OF Some]
    show ?thesis by auto
  qed
next
  let ?evs = "evs @ [ConnectSettled rc, ListToolsSettled rl, RemoteSettled rr]"
  obtain r where "pc (callTool n params (Some sg) ?evs m w) = Settled r"
    using call_settles [of "callTool n params (Some sg) evs m w" rc rl rr]
    unfolding callTool_append by blast
  then have o: "outcome (callTool n params (Some sg) ?evs m w) = Some r"
    by (simp add: outcome_def)
  from execute_settle_Inr [of n r "wld (callTool n params (Some sg) ?evs m w)"]
       execute_of_outcome [OF o]
  show "\<exists>res m1 w1. execute n params sg ?evs m w = Some (Inr res, m1, w1)"
    by auto
next
  assume "outcome (callTool n params (Some sg) evs m w) = Some (Inl e)"
  from execute_rejected_outcome [OF this]
  show "\<exists>m1 w1. execute n params sg evs m w =
           Some (Inr \<lparr> llmContent = ''Error: '' @ errorMsg e,
                       returnDisplay = ''Error: '' @ errorMsg e,
                       error = Some (errorMsg e) \<rparr>, m1, w1)"
    by (simp add: execute_rejected_def)
next
  assume a: "aborted sg"
  have "outcome (callTool n params (Some sg) evs m w) = Some (Inl (abort_reason (reason sg)))"
    using callTool_start_aborted(1) [OF a, of n params m w]
          call_run_settled [of "callTool_start n params (Some sg) m w"
                               "Inl (abort_reason (reason sg))" evs]
    by (simp add: callTool_def outcome_def)
  from execute_rejected_outcome [OF this]
  show "\<exists>m1 w1. execute n params sg evs m w =
           Some (Inr (execute_rejected (abort_reason (reason sg))), m1, w1)" .
next
  assume a: "\<not> aborted sg \<and> rawMcpClient m \<noteq> None"
  then have "outcome (callTool n params (Some sg) [AbortFired r] m w)
               = Some (Inl (abort_reason r))"
    by (auto simp: callTool_def outcome_def callTool_start_def dispatch_def on_abort_def Let_def)
  from execute_rejected_outcome [OF this]
  show "\<exists>m1 w1. execute n params sg [AbortFired r] m w =
           Some (Inr (execute_rejected (abort_reason r)), m1, w1)" .
next
  assume a: "\<not> aborted sg \<and> rawMcpClient m \<noteq> None"
  then have "outcome (callTool n params (Some sg) [RemoteSettled (Inl e)] m w) = Some (Inl e)"
    by (auto simp: callTool_def outcome_def callTool_start_def dispatch_def on_remote_def
          remote_outcome_def Let_def)
  from execute_rejected_outcome [OF this]
  show "\<exists>m1 w1. execute n params sg [RemoteSettled (Inl e)] m w =
           Some (Inr (execute_rejected e), m1, w1)" .
next
  assume a: "\<not> aborted sg \<and> rawMcpClient m = None"
  then have "outcome (callTool n params (Some sg) [ConnectSettled (Inl e)] m w) = Some (Inl e)"
    by (auto simp: callTool_def outcome_def callTool_start_def on_connect_def
          connectMcp_connected_def Let_def split_beta)
  from execute_rejected_outcome [OF this]
  show "\<exists>m1 w1. execute n params sg [ConnectSettled (Inl e)] m w =
           Some (Inr (execute_rejected e), m1, w1)" .
next
  assume "errorMsg e = errorMsg e'"
  then show "execute_rejected e = execute_rejected e'"
    by (simp add: execute_rejected_def)
qed

theorem execute_never_throws_witness:
  "aborted \<lparr> aborted = True, reason = Some (Error ''This operation was aborted'') \<rparr>
   \<and> (\<exists>m1 w1. execute ''click'' [] \<lparr> aborted = True, reason = Some (Error ''This operation was aborted'') \<rparr>
                 [] connected0 world0
        = Some (Inr \<lparr> llmContent = ''Error: This operation was aborted'',
                      returnDisplay = ''Error: This operation was aborted'',
                      error = Some ''This operation was aborted'' \<rparr>, m1, w1))"
proof -
  let ?sg = "\<lparr> aborted = True, reason = Some (Error ''This operation was aborted'') \<rparr>"
  have a: "aborted ?sg" by simp
  from execute_never_throws [where sg = ?sg and n = "''click''" and params = "[]"
         and evs = "[]" and m = connected0 and w = world0]
  have "aborted ?sg \<longrightarrow>
        (\<exists>m1 w1. execute ''click'' [] ?sg [] connected0 world0 =
           Some (Inr (execute_rejected (abort_reason (reason ?sg))), m1, w1))"
    by blast
  with a show ?thesis
    by (simp add: execute_rejected_def abort_reason_def)
qed

section \<open>Teardown\<close>

lemma close_client_fields:
  "rawMcpClient (fst (close_client r1 m w)) = None"
  "mcpTransport (fst (close_client r1 m w)) = mcpTransport m"
  "config (fst (close_client r1 m w)) = config m"
  by (simp_all add: close_client_def Let_def split: option.splits)

lemma close_client_trace:
  "filter is_close (trace (snd (close_client r1 m w)))
     = filter is_close (trace w) @ (case rawMcpClient m of Some c \<Rightarrow> [CloseClient c] | None \<Rightarrow> [])"
  by (simp add: close_client_def emit_def Let_def split: option.splits sum.splits)

lemma close_client_world:
  "next_ref (snd (close_client r1 m w)) = next_ref w"
  "registry (snd (close_client r1 m w)) = registry w"
  by (simp_all add: close_client_def emit_def Let_def split: option.splits sum.splits)

lemma close_transport_fields:
  "mcpTransport (fst (close_transport r2 m w)) = None"
  "rawMcpClient (fst (close_transport r2 m w)) = rawMcpClient m"
  "config (fst (close_transport r2 m w)) = config m"
  by (simp_all add: close_transport_def Let_def split: option.splits)

lemma close_transport_trace:
  "filter is_close (trace (snd (close_transport r2 m w)))
     = filter is_close (trace w) @ (case mcpTransport m of Some t \<Rightarrow> [CloseTransport t] | None \<Rightarrow> [])"
  by (simp add: close_transport_def emit_def Let_def split: option.splits sum.splits)

lemma close_transport_world:
  "next_ref (snd (close_transport r2 m w)) = next_ref w"
  "registry (snd (close_transport r2 m w)) = registry w"
  by (simp_all add: close_transport_def emit_def Let_def split: option.splits sum.splits)

lemma close_unfold:
  "close r1 r2 m w =
     (Inr (),
      (fst (close_transport r2 (fst (close_client r1 m w)) (snd (close_client r1 m w))))
        \<lparr>discoveredTools := []\<rparr>,
      snd (close_transport r2 (fst (close_client r1 m w)) (snd (close_client r1 m w))))"
  by (simp add: close_def split_beta)

lemma close_fields:
  "fst (close r1 r2 m w) = Inr ()"
  "rawMcpClient (fst (snd (close r1 r2 m w))) = None"
  "mcpTransport (fst (snd (close r1 r2 m w))) = None"
  "discoveredTools (fst (snd (close r1 r2 m w))) = []"
  "config (fst (snd (close r1 r2 m w))) = config m"
  by (simp_all add: close_unfold close_client_fields close_transport_fields)

lemma close_trace:
  "filter is_close (trace (snd (snd (close r1 r2 m w))))
     = filter is_close (trace w) @ closes_due m"
  by (simp add: close_unfold close_transport_trace close_client_trace close_client_fields
        closes_due_def)

lemma close_closed:
  assumes "rawMcpClient m = None" and "mcpTransport m = None" and "discoveredTools m = []"
  shows "close r1 r2 m w = (Inr (), m, w)"
  using assms by (simp add: close_def close_client_def close_transport_def)

lemma close_twice:
  "close r3 r4 (fst (snd (close r1 r2 m w))) (snd (snd (close r1 r2 m w)))
     = (Inr (), fst (snd (close r1 r2 m w)), snd (snd (close r1 r2 m w)))"
  by (rule close_closed) (simp_all add: close_fields)

lemma close_logs_client_failure:
  assumes "rawMcpClient m = Some c"
  shows "LogError (''Error closing MCP client: '' @ errorMsg e)
           \<in> set (trace (snd (snd (close (Inl e) r2 m w))))"
  using assms
  by (simp add: close_unfold close_client_def close_transport_def emit_def Let_def
        split: option.splits sum.splits)

lemma close_logs_transport_failure:
  assumes "mcpTransport m = Some t"
  shows "LogError (''Error closing MCP transport: '' @ errorMsg e)
           \<in> set (trace (snd (snd (close r1 (Inl e) m w))))"
  using assms
  by (simp add: close_unfold close_client_def close_transport_def emit_def Let_def
        split: option.splits sum.splits)

lemma cleanup_with_returns: "fst (cleanupBrowserAgent_with cm m w) = Inr ()"
  by (cases "cm m w" rule: prod_cases3)
     (auto simp: cleanupBrowserAgent_with_def split: sum.splits)

lemma cleanup_close:
  "cleanupBrowserAgent r1 r2 m w =
     (Inr (), fst (snd (close r1 r2 m w)),
      emit (Log ''Browser agent cleanup complete'') (snd (snd (close r1 r2 m w))))"
  by (simp add: cleanupBrowserAgent_def cleanupBrowserAgent_with_def close_unfold)

lemma emit_no_close: "\<not> is_close a \<Longrightarrow> filter is_close (trace (emit a w)) = filter is_close (trace w)"
  by (simp add: emit_def)

text \<open>
  C9. \<^verbatim>\<open>close\<close> never throws, whatever the two closes do. It asks the client to
  close first and the transport second, each once if the manager holds it, and the
  transport also when the client's close has failed; a failure of either is logged.
  Afterwards the manager holds no client and no transport and its catalog is empty. A
  second \<^verbatim>\<open>close\<close> asks nothing of anyone and changes nothing.
  \<^verbatim>\<open>cleanupBrowserAgent\<close> returns normally, also over a \<^verbatim>\<open>close\<close> that rejects,
  and when called again.
\<close>

theorem close_teardown:
  "fst (close r1 r2 m w) = Inr ()
   \<and> rawMcpClient (fst (snd (close r1 r2 m w))) = None
   \<and> mcpTransport (fst (snd (close r1 r2 m w))) = None
   \<and> discoveredTools (fst (snd (close r1 r2 m w))) = []
   \<and> filter is_close (trace (snd (snd (close r1 r2 m w))))
       = filter is_close (trace w) @ closes_due m
   \<and> (rawMcpClient m \<noteq> None \<longrightarrow>
        LogError (''Error closing MCP client: '' @ errorMsg e1)
          \<in> set (trace (snd (snd (close (Inl e1) r2 m w)))))
   \<and> (mcpTransport m \<noteq> None \<longrightarrow>
        LogError (''Error closing MCP transport: '' @ errorMsg e2)
          \<in> set (trace (snd (snd (close r1 (Inl e2) m w)))))
   \<and> close r3 r4 (fst (snd (close r1 r2 m w))) (snd (snd (close r1 r2 m w)))
       = (Inr (), fst (snd (close r1 r2 m w)), snd (snd (close r1 r2 m w)))
   \<and> fst (cleanupBrowserAgent r1 r2 m w) = Inr ()
   \<and> fst (cleanupBrowserAgent_with cm x w) = Inr ()
   \<and> fst (cleanupBrowserAgent r3 r4 (fst (snd (cleanupBrowserAgent r1 r2 m w)))
            (snd (snd (cleanupBrowserAgent r1 r2 m w)))) = Inr ()
   \<and> fst (snd (cleanupBrowserAgent r3 r4 (fst (snd (cleanupBrowserAgent r1 r2 m w)))
                 (snd (snd (cleanupBrowserAgent r1 r2 m w)))))
       = fst (snd (close r1 r2 m w))
   \<and> filter is_close
        (trace (snd (snd (cleanupBrowserAgent r3 r4 (fst (snd (cleanupBrowserAgent r1 r2 m w)))
                            (snd (snd (cleanupBrowserAgent r1 r2 m w)))))))
       = filter is_close (trace w) @ closes_due m"
proof -
  let ?m1 = "fst (snd (close r1 r2 m w))"
  let ?w1 = "snd (snd (close r1 r2 m w))"
  let ?w2 = "emit (Log ''Browser agent cleanup complete'') ?w1"
  have again: "close r3 r4 ?m1 ?w2 = (Inr (), ?m1, ?w2)"
    by (rule close_closed) (simp_all add: close_fields)
  have c1: "rawMcpClient m \<noteq> None \<longrightarrow>
        LogError (''Error closing MCP client: '' @ errorMsg e1)
          \<in> set (trace (snd (snd (close (Inl e1) r2 m w))))"
    using close_logs_client_failure [of m _ e1 r2 w] by auto
  have c2: "mcpTransport m \<noteq> None \<longrightarrow>
        LogError (''Error closing MCP transport: '' @ errorMsg e2)
          \<in> set (trace (snd (snd (close r1 (Inl e2) m w))))"
    using close_logs_transport_failure [of m _ e2 r1 w] by auto
  have t2: "filter is_close (trace (emit (Log ''Browser agent cleanup complete'') ?w2))
              = filter is_close (trace w) @ closes_due m"
    by (simp add: emit_no_close close_trace)
  show ?thesis
    using c1 c2 t2
    by (simp add: close_fields close_trace close_twice cleanup_with_returns cleanup_close again)
qed

theorem close_teardown_witness:
  "rawMcpClient connected0 \<noteq> None \<and> mcpTransport connected0 \<noteq> None
   \<and> LogError ''Error closing MCP client: client gone''
        \<in> set (trace (snd (snd (close (Inl (Error ''client gone'')) (Inl (NonError ''EPIPE''))
                                   connected0 world0))))
   \<and> LogError ''Error closing MCP transport: EPIPE''
        \<in> set (trace (snd (snd (close (Inl (Error ''client gone'')) (Inl (NonError ''EPIPE''))
                                   connected0 world0))))
   \<and> filter is_close (trace (snd (snd (close (Inl (Error ''client gone''))
                                          (Inl (NonError ''EPIPE'')) connected0 world0))))
       = [CloseClient 0, CloseTransport 1]
   \<and> fst (snd (close (Inl (Error ''client gone'')) (Inl (NonError ''EPIPE'')) connected0 world0))
       = new_BrowserManager config0"
proof -
  have h: "rawMcpClient connected0 \<noteq> None" "mcpTransport connected0 \<noteq> None"
    by (simp_all add: connected0_def)
  note t = close_teardown [where ?r1.0 = "Inl (Error ''client gone'')"
                             and ?r2.0 = "Inl (NonError ''EPIPE'')"
                             and ?e1.0 = "Error ''client gone''"
                             and ?e2.0 = "NonError ''EPIPE''"
                             and m = connected0 and w = world0
                             and ?r3.0 = "Inr ()" and ?r4.0 = "Inr ()"
                             and cm = "close (Inr ()) (Inr ())" and x = connected0]
  from t h have l1: "LogError (''Error closing MCP client: '' @ errorMsg (Error ''client gone''))
        \<in> set (trace (snd (snd (close (Inl (Error ''client gone'')) (Inl (NonError ''EPIPE''))
                                   connected0 world0))))"
    by blast
  from t h have l2: "LogError (''Error closing MCP transport: '' @ errorMsg (NonError ''EPIPE''))
        \<in> set (trace (snd (snd (close (Inl (Error ''client gone'')) (Inl (NonError ''EPIPE''))
                                   connected0 world0))))"
    by blast
  from t have l3: "filter is_close (trace (snd (snd (close (Inl (Error ''client gone''))
                                          (Inl (NonError ''EPIPE'')) connected0 world0))))
       = filter is_close (trace world0) @ closes_due connected0"
    by blast
  have l4: "fst (snd (close (Inl (Error ''client gone'')) (Inl (NonError ''EPIPE'')) connected0 world0))
       = new_BrowserManager config0"
    by (simp add: close_def close_client_def close_transport_def connected0_def
          new_BrowserManager_def Let_def)
  from h l1 l2 l3 l4 show ?thesis
    by (simp add: closes_due_def connected0_def world0_def)
qed

section \<open>Connecting\<close>

lemma emit_fields [simp]:
  "next_ref (emit a w) = next_ref w"
  "registry (emit a w) = registry w"
  "trace (emit a w) = trace w @ [a]"
  by (simp_all add: emit_def)

lemma fresh_fields [simp]:
  "fst (fresh w) = next_ref w"
  "next_ref (snd (fresh w)) = Suc (next_ref w)"
  "registry (snd (fresh w)) = registry w"
  "trace (snd (fresh w)) = trace w"
  by (simp_all add: fresh_def)

lemma connectMcp_start_mgr:
  "rawMcpClient (fst (connectMcp_start m w)) = Some (next_ref w)"
  "mcpTransport (fst (connectMcp_start m w)) = Some (Suc (next_ref w))"
  "discoveredTools (fst (connectMcp_start m w)) = discoveredTools m"
  "config (fst (connectMcp_start m w)) = config m"
  by (simp_all add: connectMcp_start_def Let_def split_beta)

lemma connectMcp_start_world:
  "next_ref (snd (connectMcp_start m w)) = Suc (Suc (next_ref w))"
  "registry (snd (connectMcp_start m w)) = registry w"
  "spawned (snd (connectMcp_start m w)) = Suc (spawned w)"
  "connects (snd (connectMcp_start m w)) = Suc (connects w)"
  by (simp_all add: connectMcp_start_def Let_def split_beta spawned_def connects_def)

lemma connectMcp_connected_mgr:
  "fst (snd (connectMcp_connected rc m w)) = m"
  by (simp add: connectMcp_connected_def Let_def split: sum.splits option.splits)

lemma connectMcp_connected_world:
  "next_ref (snd (snd (connectMcp_connected rc m w))) = next_ref w"
  "registry (snd (snd (connectMcp_connected rc m w))) = registry w"
  "spawned (snd (snd (connectMcp_connected rc m w))) = spawned w"
  "connects (snd (snd (connectMcp_connected rc m w))) = connects w"
  by (simp_all add: connectMcp_connected_def Let_def spawned_def connects_def
        split: sum.splits option.splits)

lemma connectMcp_connected_result:
  "fst (connectMcp_connected rc m w) =
     (case rc of Inl e \<Rightarrow> Inl e
      | Inr u \<Rightarrow> (case rawMcpClient m of None \<Rightarrow> Inl (Error ''MCP client not connected'')
                  | Some c \<Rightarrow> Inr ()))"
  by (simp add: connectMcp_connected_def Let_def split: sum.splits option.splits)

lemma discoverTools_finish_mgr:
  "rawMcpClient (fst (snd (discoverTools_finish rl m w))) = rawMcpClient m"
  "mcpTransport (fst (snd (discoverTools_finish rl m w))) = mcpTransport m"
  "config (fst (snd (discoverTools_finish rl m w))) = config m"
  "discoveredTools (fst (snd (discoverTools_finish rl m w))) =
     (case rl of Inl e \<Rightarrow> discoveredTools m | Inr ts \<Rightarrow> ts)"
  by (simp_all add: discoverTools_finish_def split: sum.splits)

lemma discoverTools_finish_world:
  "next_ref (snd (snd (discoverTools_finish rl m w))) = next_ref w"
  "registry (snd (snd (discoverTools_finish rl m w))) = registry w"
  "spawned (snd (snd (discoverTools_finish rl m w))) = spawned w"
  "connects (snd (snd (discoverTools_finish rl m w))) = connects w"
  by (simp_all add: discoverTools_finish_def spawned_def connects_def split: sum.splits)

lemma discoverTools_finish_result:
  "fst (discoverTools_finish rl m w) = (case rl of Inl e \<Rightarrow> Inl e | Inr ts \<Rightarrow> Inr ())"
  by (simp add: discoverTools_finish_def split: sum.splits)

lemma connectMcp_unfold:
  "connectMcp rc rl m w =
     (let m1 = fst (connectMcp_start m w); w1 = snd (connectMcp_start m w);
          w2 = snd (snd (connectMcp_connected rc m1 w1))
      in case rc of
           Inl e \<Rightarrow> (Inl e, m1, w2)
         | Inr u \<Rightarrow> discoverTools_finish rl m1 w2)"
  by (simp add: connectMcp_def connectMcp_connected_def connectMcp_start_mgr Let_def split_beta
        split: sum.splits)

lemma connectMcp_result:
  "fst (connectMcp rc rl m w) =
     (case rc of Inl e \<Rightarrow> Inl e | Inr u \<Rightarrow> (case rl of Inl e \<Rightarrow> Inl e | Inr ts \<Rightarrow> Inr ()))"
  by (simp add: connectMcp_unfold Let_def discoverTools_finish_result split: sum.splits)

lemma connectMcp_mgr:
  "rawMcpClient (fst (snd (connectMcp rc rl m w))) = Some (next_ref w)"
  "mcpTransport (fst (snd (connectMcp rc rl m w))) = Some (Suc (next_ref w))"
  "config (fst (snd (connectMcp rc rl m w))) = config m"
  by (simp_all add: connectMcp_unfold Let_def discoverTools_finish_mgr connectMcp_start_mgr
        split: sum.splits)

lemma connectMcp_tools:
  "discoveredTools (fst (snd (connectMcp rc rl m w))) =
     (case rc of Inl e \<Rightarrow> discoveredTools m
      | Inr u \<Rightarrow> (case rl of Inl e \<Rightarrow> discoveredTools m | Inr ts \<Rightarrow> ts))"
  by (simp add: connectMcp_unfold Let_def discoverTools_finish_mgr connectMcp_start_mgr
        split: sum.splits)

lemma connectMcp_world:
  "next_ref (snd (snd (connectMcp rc rl m w))) = Suc (Suc (next_ref w))"
  "registry (snd (snd (connectMcp rc rl m w))) = registry w"
  "spawned (snd (snd (connectMcp rc rl m w))) = Suc (spawned w)"
  "connects (snd (snd (connectMcp rc rl m w))) = Suc (connects w)"
  by (simp_all add: connectMcp_unfold Let_def discoverTools_finish_world
        connectMcp_connected_world connectMcp_start_world split: sum.splits)

lemma ensureConnection_unconnected:
  "rawMcpClient m = None \<Longrightarrow> ensureConnection rc rl m w = connectMcp rc rl m w"
  by (simp add: ensureConnection_def)

lemma ensureConnection_connected:
  "rawMcpClient m \<noteq> None \<Longrightarrow> ensureConnection rc rl m w = (Inr (), m, w)"
  by (simp add: ensureConnection_def)

section \<open>After \<^verbatim>\<open>close\<close>\<close>

lemma close_world:
  "next_ref (snd (snd (close r1 r2 m w))) = next_ref w"
  "registry (snd (snd (close r1 r2 m w))) = registry w"
  "spawned (snd (snd (close r1 r2 m w))) = spawned w"
  "connects (snd (snd (close r1 r2 m w))) = connects w"
  by (simp_all add: close_unfold close_client_def close_transport_def Let_def spawned_def
        connects_def split: option.splits sum.splits)

text \<open>
  C2, as the code has it. \<^verbatim>\<open>close\<close> puts the manager back where a new one starts: no
  client, no transport, an empty catalog. \<^verbatim>\<open>ensureConnection\<close> on it is not refused:
  it runs \<^verbatim>\<open>connectMcp\<close> again, which creates a new client and a new transport (one
  more subprocess, one more connect) and fails only if that connect or the discovery
  fails.
\<close>

theorem ensureConnection_after_close:
  assumes "close r1 r2 m w = (r, m1, w1)"
  shows "rawMcpClient m1 = None \<and> mcpTransport m1 = None \<and> discoveredTools m1 = []
         \<and> ensureConnection rc rl m1 w1 = connectMcp rc rl m1 w1
         \<and> fst (ensureConnection rc rl m1 w1)
             = (case rc of Inl e \<Rightarrow> Inl e
                | Inr u \<Rightarrow> (case rl of Inl e \<Rightarrow> Inl e | Inr ts \<Rightarrow> Inr ()))
         \<and> rawMcpClient (fst (snd (ensureConnection rc rl m1 w1))) = Some (next_ref w1)
         \<and> mcpTransport (fst (snd (ensureConnection rc rl m1 w1))) = Some (Suc (next_ref w1))
         \<and> discoveredTools (fst (snd (ensureConnection rc rl m1 w1)))
             = (case rc of Inl e \<Rightarrow> []
                | Inr u \<Rightarrow> (case rl of Inl e \<Rightarrow> [] | Inr ts \<Rightarrow> ts))
         \<and> spawned (snd (snd (ensureConnection rc rl m1 w1))) = Suc (spawned w1)
         \<and> connects (snd (snd (ensureConnection rc rl m1 w1))) = Suc (connects w1)"
proof -
  have m1: "m1 = fst (snd (close r1 r2 m w))" and w1: "w1 = snd (snd (close r1 r2 m w))"
    using assms by simp_all
  have c: "rawMcpClient m1 = None" "mcpTransport m1 = None" "discoveredTools m1 = []"
    unfolding m1 by (simp_all add: close_fields)
  have e: "ensureConnection rc rl m1 w1 = connectMcp rc rl m1 w1"
    using c(1) by (rule ensureConnection_unconnected)
  show ?thesis
    unfolding e using c
    by (simp add: connectMcp_result connectMcp_mgr connectMcp_tools connectMcp_world
          split: sum.splits)
qed

theorem ensureConnection_after_close_witness:
  "close (Inr ()) (Inr ()) connected0 (world0\<lparr>next_ref := 2\<rparr>)
     = (Inr (), new_BrowserManager config0,
        \<lparr> next_ref = 2, trace = [CloseClient 0, CloseTransport 1], registry = [] \<rparr>)
   \<and> fst (ensureConnection (Inr ()) (Inr []) (new_BrowserManager config0)
        \<lparr> next_ref = 2, trace = [CloseClient 0, CloseTransport 1], registry = [] \<rparr>) = Inr ()
   \<and> rawMcpClient (fst (snd (ensureConnection (Inr ()) (Inr []) (new_BrowserManager config0)
        \<lparr> next_ref = 2, trace = [CloseClient 0, CloseTransport 1], registry = [] \<rparr>))) = Some 2"
proof -
  have c: "close (Inr ()) (Inr ()) connected0 (world0\<lparr>next_ref := 2\<rparr>)
     = (Inr (), new_BrowserManager config0,
        \<lparr> next_ref = 2, trace = [CloseClient 0, CloseTransport 1], registry = [] \<rparr>)"
    by (simp add: close_def close_client_def close_transport_def connected0_def world0_def
          new_BrowserManager_def emit_def Let_def)
  note t = ensureConnection_after_close [OF c, of "Inr ()" "Inr []"]
  have "fst (ensureConnection (Inr ()) (Inr []) (new_BrowserManager config0)
        \<lparr> next_ref = 2, trace = [CloseClient 0, CloseTransport 1], registry = [] \<rparr>) = Inr ()"
    using t [THEN conjunct2, THEN conjunct2, THEN conjunct2, THEN conjunct2, THEN conjunct1]
    by simp
  moreover
  have "rawMcpClient (fst (snd (ensureConnection (Inr ()) (Inr []) (new_BrowserManager config0)
        \<lparr> next_ref = 2, trace = [CloseClient 0, CloseTransport 1], registry = [] \<rparr>))) = Some 2"
    using t [THEN conjunct2, THEN conjunct2, THEN conjunct2, THEN conjunct2, THEN conjunct2,
             THEN conjunct1]
    by simp
  ultimately show ?thesis using c by blast
qed

text \<open>
  C2 as stated fails: a manager is connected, closed, and asked to connect again; the
  third call succeeds, with a second subprocess.
\<close>

theorem no_resurrection_counterexample:
  "(let (r1, m1, w1) = ensureConnection (Inr ()) (Inr []) (new_BrowserManager config0) world0;
        (r2, m2, w2) = close (Inr ()) (Inr ()) m1 w1;
        (r3, m3, w3) = ensureConnection (Inr ()) (Inr []) m2 w2
    in r1 = Inr () \<and> r2 = Inr () \<and> r3 = Inr () \<and> rawMcpClient m2 = None
       \<and> rawMcpClient m3 = Some 2 \<and> mcpTransport m3 = Some 3 \<and> spawned w3 = 2)"
proof -
  have n: "rawMcpClient (new_BrowserManager config0) = None"
    by (simp add: new_BrowserManager_def)
  have s0: "spawned world0 = 0" and n0: "next_ref world0 = 0"
    by (simp_all add: world0_def spawned_def)
  show ?thesis
    by (simp add: split_beta ensureConnection_unconnected n close_fields close_world
          connectMcp_result connectMcp_mgr connectMcp_world s0 n0)
qed

section \<open>Wrapping the catalog\<close>

lemma wrap_tools_objects: "map snd (fst (wrap_tools bm mb ds w)) = map (wrap_tool bm mb) ds"
  by (induction ds arbitrary: w) (simp_all add: split_beta Let_def)

lemma wrap_tools_refs:
  "map fst (fst (wrap_tools bm mb ds w)) = [next_ref w ..< next_ref w + length ds]"
proof (induction ds arbitrary: w)
  case Nil
  then show ?case by simp
next
  case (Cons d ds)
  have "[next_ref w ..< next_ref w + length (d # ds)]
          = next_ref w # [Suc (next_ref w) ..< Suc (next_ref w) + length ds]"
    by (simp add: upt_rec)
  with Cons.IH [of "snd (fresh w)"] show ?case
    by (simp add: split_beta Let_def)
qed

lemma wrap_tools_world:
  "next_ref (snd (wrap_tools bm mb ds w)) = next_ref w + length ds"
  "registry (snd (wrap_tools bm mb ds w)) = registry w"
  "trace (snd (wrap_tools bm mb ds w)) = trace w"
  by (induction ds arbitrary: w) (simp_all add: split_beta Let_def)

lemma wrap_tools_length: "length (fst (wrap_tools bm mb ds w)) = length ds"
  using wrap_tools_objects [of bm mb ds w, THEN arg_cong, of length] by simp

lemma store_tools_other: "r \<notin> fst ` set ts \<Longrightarrow> store_tools ts tm r = tm r"
  by (induction ts arbitrary: tm) auto

lemma store_tools_nth:
  assumes "distinct (map fst ts)" and "i < length ts"
  shows "store_tools ts tm (fst (ts ! i)) = Some (snd (ts ! i))"
  using assms
proof (induction ts arbitrary: tm i)
  case Nil
  then show ?case by simp
next
  case (Cons p ts)
  obtain r t where p: "p = (r, t)" by (cases p)
  show ?case
  proof (cases i)
    case 0
    with Cons.prems p show ?thesis by (simp add: store_tools_other)
  next
    case (Suc j)
    have "store_tools ts (tm(r \<mapsto> t)) (fst (ts ! j)) = Some (snd (ts ! j))"
      by (rule Cons.IH) (use Cons.prems Suc in auto)
    with Suc p show ?thesis by simp
  qed
qed

lemma wrap_tool_fields:
  "browserManager (wrap_tool bm mb d) = bm"
  "messageBus (wrap_tool bm mb d) = mb"
  "tool_name (wrap_tool bm mb d) = name d"
  "displayName (wrap_tool bm mb d) = name d"
  "tool_description (wrap_tool bm mb d) = (case description d of Some x \<Rightarrow> x | None \<Rightarrow> [])"
  "parameterSchema (wrap_tool bm mb d)
     = (case inputSchema d of Some sch \<Rightarrow> sch | None \<Rightarrow> empty_object_schema)"
  by (simp_all add: wrap_tool_def new_McpDeclarativeTool_def
        convertMcpToolToFunctionDeclaration_def Let_def)

lemma getDiscoveredTools_connected:
  "rawMcpClient m \<noteq> None \<Longrightarrow> getDiscoveredTools rc rl m w = (Inr (discoveredTools m), m, w)"
  by (simp add: getDiscoveredTools_def ensureConnection_connected)

lemma createMcpDeclarativeTools_connected:
  assumes "rawMcpClient m \<noteq> None"
  shows "createMcpDeclarativeTools bm mb rc rl m w =
           (Inr (fst (wrap_tools bm mb (discoveredTools m)
                        (emit (Log (''Creating '' @ show_nat (length (discoveredTools m))
                                    @ '' declarative tools for browser agent'')) w))),
            m,
            snd (wrap_tools bm mb (discoveredTools m)
                   (emit (Log (''Creating '' @ show_nat (length (discoveredTools m))
                               @ '' declarative tools for browser agent'')) w)))"
  by (simp add: createMcpDeclarativeTools_def getDiscoveredTools_connected [OF assms]
        Let_def split_beta)

lemma connectMcp_new_manager:
  "fst (snd (connectMcp (Inr u) (Inr ds) (new_BrowserManager cfg) w))
     = built_manager cfg (next_ref w - 1) ds" if "0 < next_ref w"
  using that
  by (simp add: connectMcp_unfold Let_def discoverTools_finish_def connectMcp_start_def
        split_beta new_BrowserManager_def built_manager_def)

lemma wrap_tools_zip:
  "fst (wrap_tools bm mb ds w)
     = zip [next_ref w ..< next_ref w + length ds] (map (wrap_tool bm mb) ds)"
  using zip_map_fst_snd [of "fst (wrap_tools bm mb ds w)"]
  by (simp add: wrap_tools_refs wrap_tools_objects)

lemma create_success:
  fixes h :: heap
  defines "b \<equiv> next_ref (hworld h)"
  assumes "rc = Inr u" and "rl = Inr ds"
  shows "\<exists>h1. createBrowserAgentDefinition cfg mb po rc rl h =
                 (Inr \<lparr> toolConfig_tools = [b + 3 ..< b + 3 + length ds], bridge_manager = b \<rparr>, h1)
          \<and> managers h1 = (managers h)(b \<mapsto> built_manager cfg b ds)
          \<and> tools h1 = store_tools (zip [b + 3 ..< b + 3 + length ds] (map (wrap_tool b mb) ds))
                          (tools h)
          \<and> next_ref (hworld h1) = b + 3 + length ds
          \<and> registry (hworld h1) = registry (hworld h)"
proof -
  let ?w0 = "emit (Log ''Creating browser agent definition with isolated MCP tools...'') (hworld h)"
  let ?w1 = "snd (fresh ?w0)"
  let ?c = "connectMcp rc rl (new_BrowserManager cfg) ?w1"
  have e: "ensureConnection rc rl (new_BrowserManager cfg) ?w1 = ?c"
    by (rule ensureConnection_unconnected) (simp add: new_BrowserManager_def)
  have r: "fst ?c = Inr ()"
    using assms by (simp add: connectMcp_result)
  have m: "fst (snd ?c) = built_manager cfg b ds"
    using assms connectMcp_new_manager [of ?w1 u ds cfg] by (simp add: b_def)
  have n: "next_ref (snd (snd ?c)) = b + 3" and g: "registry (snd (snd ?c)) = registry (hworld h)"
    by (simp_all add: connectMcp_world b_def)
  have bm: "rawMcpClient (built_manager cfg b ds) \<noteq> None"
    and dt: "discoveredTools (built_manager cfg b ds) = ds"
    by (simp_all add: built_manager_def)
  have f: "fst (fresh ?w0) = b"
    by (simp add: b_def)
  show ?thesis
    unfolding createBrowserAgentDefinition_def Let_def split_beta e f
    by (simp add: r m n g createMcpDeclarativeTools_connected [OF bm] dt wrap_tools_zip
          wrap_tools_world)
qed

lemma create_failure:
  assumes "fst (connectMcp rc rl (new_BrowserManager cfg)
             (snd (fresh (emit (Log ''Creating browser agent definition with isolated MCP tools...'')
                            (hworld h))))) = Inl e"
  shows "fst (createBrowserAgentDefinition cfg mb po rc rl h) = Inl e"
    and "registry (hworld (snd (createBrowserAgentDefinition cfg mb po rc rl h)))
           = registry (hworld h)"
proof -
  let ?w0 = "emit (Log ''Creating browser agent definition with isolated MCP tools...'') (hworld h)"
  let ?w1 = "snd (fresh ?w0)"
  have e: "ensureConnection rc rl (new_BrowserManager cfg) ?w1
             = connectMcp rc rl (new_BrowserManager cfg) ?w1"
    by (rule ensureConnection_unconnected) (simp add: new_BrowserManager_def)
  show "fst (createBrowserAgentDefinition cfg mb po rc rl h) = Inl e"
    unfolding createBrowserAgentDefinition_def Let_def split_beta e
    using assms by simp
  show "registry (hworld (snd (createBrowserAgentDefinition cfg mb po rc rl h)))
           = registry (hworld h)"
    unfolding createBrowserAgentDefinition_def Let_def split_beta e
    using assms by (simp add: connectMcp_world)
qed

lemma create_cases:
  obtains (success) u ds where "rc = Inr u" and "rl = Inr ds"
  | (failure) e where
      "fst (connectMcp rc rl (new_BrowserManager cfg)
             (snd (fresh (emit (Log ''Creating browser agent definition with isolated MCP tools...'')
                            (hworld h))))) = Inl e"
proof (cases rc)
  case (Inl e)
  then show ?thesis by (intro failure [of e]) (simp add: connectMcp_result)
next
  case rc: (Inr u)
  show ?thesis
  proof (cases rl)
    case (Inl e)
    with rc show ?thesis by (intro failure [of e]) (simp add: connectMcp_result)
  next
    case (Inr ds)
    with rc show ?thesis by (rule success)
  qed
qed

lemma create_registry:
  "registry (hworld (snd (createBrowserAgentDefinition cfg mb po rc rl h))) = registry (hworld h)"
proof (cases rule: create_cases [where rc = rc and rl = rl and cfg = cfg and h = h])
  case (success u ds)
  from create_success [OF this, of cfg mb po h] show ?thesis by auto
next
  case (failure e)
  then show ?thesis by (rule create_failure)
qed

lemma create_Inr:
  assumes "createBrowserAgentDefinition cfg mb po rc rl h = (Inr b, h1)"
  obtains u ds where "rc = Inr u" and "rl = Inr ds"
proof (cases rule: create_cases [where rc = rc and rl = rl and cfg = cfg and h = h])
  case (success u ds)
  then show ?thesis by (rule that)
next
  case (failure e)
  from create_failure(1) [OF this, of mb po] assms show ?thesis by simp
qed

text \<open>
  C8. When the connect and the discovery succeed, the discovery answering with the
  descriptors \<open>ds\<close>, the build returns as many tools as there are descriptors, each a
  distinct new object, the \<open>i\<close>-th made from the \<open>i\<close>-th descriptor: its name is the
  descriptor's, its description is the descriptor's or the empty string when there is
  none, its schema is the descriptor's or \<^verbatim>\<open>{ type: 'object', properties: {} }\<close> when
  there is none. Built with parameters, it gives an invocation for that name, with
  those parameters, on the manager of the bridge. Names are not compared with each
  other: descriptors with one name give tools with one name.
\<close>

theorem bridge_wraps_catalog:
  assumes "rc = Inr u" and "rl = Inr ds"
  shows "\<exists>b h1. createBrowserAgentDefinition cfg mb po rc rl h = (Inr b, h1)
           \<and> length (toolConfig_tools b) = length ds
           \<and> distinct (toolConfig_tools b)
           \<and> (\<exists>m. managers h1 (bridge_manager b) = Some m \<and> discoveredTools m = ds)
           \<and> (\<forall>i<length ds. \<exists>t.
                 tools h1 (toolConfig_tools b ! i) = Some t
                 \<and> browserManager t = bridge_manager b
                 \<and> tool_name t = name (ds ! i)
                 \<and> tool_description t
                     = (case description (ds ! i) of Some x \<Rightarrow> x | None \<Rightarrow> [])
                 \<and> parameterSchema t
                     = (case inputSchema (ds ! i) of
                          Some sch \<Rightarrow> sch
                        | None \<Rightarrow> JObj [(''type'', JStr ''object''), (''properties'', JObj [])])
                 \<and> (\<forall>params. inv_toolName (build t params) = name (ds ! i)
                        \<and> inv_browserManager (build t params) = bridge_manager b
                        \<and> inv_params (build t params) = params))"
proof -
  let ?b = "next_ref (hworld h)"
  let ?refs = "[?b + 3 ..< ?b + 3 + length ds]"
  let ?ts = "zip ?refs (map (wrap_tool ?b mb) ds)"
  obtain h1 where
    c: "createBrowserAgentDefinition cfg mb po rc rl h
          = (Inr \<lparr> toolConfig_tools = ?refs, bridge_manager = ?b \<rparr>, h1)"
    and mg: "managers h1 = (managers h)(?b \<mapsto> built_manager cfg ?b ds)"
    and tl: "tools h1 = store_tools ?ts (tools h)"
    using create_success [OF assms, of cfg mb po h] by blast
  have d: "distinct (map fst ?ts)" by simp
  have each: "\<exists>t. tools h1 (?refs ! i) = Some t
                 \<and> browserManager t = ?b
                 \<and> tool_name t = name (ds ! i)
                 \<and> tool_description t
                     = (case description (ds ! i) of Some x \<Rightarrow> x | None \<Rightarrow> [])
                 \<and> parameterSchema t
                     = (case inputSchema (ds ! i) of
                          Some sch \<Rightarrow> sch
                        | None \<Rightarrow> JObj [(''type'', JStr ''object''), (''properties'', JObj [])])
                 \<and> (\<forall>params. inv_toolName (build t params) = name (ds ! i)
                        \<and> inv_browserManager (build t params) = ?b
                        \<and> inv_params (build t params) = params)"
    if i: "i < length ds" for i
  proof -
    have "store_tools ?ts (tools h) (fst (?ts ! i)) = Some (snd (?ts ! i))"
      by (rule store_tools_nth [OF d]) (use i in simp)
    with i have "tools h1 (?refs ! i) = Some (wrap_tool ?b mb (ds ! i))"
      by (simp add: tl)
    then show ?thesis
      by (simp add: wrap_tool_fields empty_object_schema_def build_def split: option.splits)
  qed
  have "managers h1 ?b = Some (built_manager cfg ?b ds)"
    by (simp add: mg)
  moreover have "discoveredTools (built_manager cfg ?b ds) = ds"
    by (simp add: built_manager_def)
  ultimately show ?thesis
    using c each by (intro exI [of _ "\<lparr> toolConfig_tools = ?refs, bridge_manager = ?b \<rparr>"] exI [of _ h1]) simp
qed

theorem bridge_wraps_catalog_witness:
  "(Inr () :: js_error + unit) = Inr ()
   \<and> (\<exists>b h1. createBrowserAgentDefinition config0 7 True (Inr ())
         (Inr [\<lparr> name = ''click'', description = Some ''Click element'',
                 inputSchema = Some (JObj [(''type'', JStr ''object'')]) \<rparr>,
               \<lparr> name = ''click'', description = None, inputSchema = None \<rparr>]) heap0 = (Inr b, h1)
        \<and> length (toolConfig_tools b) = 2
        \<and> (\<exists>t. tools h1 (toolConfig_tools b ! 0) = Some t
              \<and> tool_name t = ''click'' \<and> tool_description t = ''Click element''
              \<and> parameterSchema t = JObj [(''type'', JStr ''object'')])
        \<and> (\<exists>t. tools h1 (toolConfig_tools b ! 1) = Some t
              \<and> tool_name t = ''click'' \<and> tool_description t = []
              \<and> parameterSchema t = JObj [(''type'', JStr ''object''), (''properties'', JObj [])]))"
proof -
  let ?ds = "[\<lparr> name = ''click'', description = Some ''Click element'',
                 inputSchema = Some (JObj [(''type'', JStr ''object'')]) \<rparr>,
               \<lparr> name = ''click'', description = None, inputSchema = None \<rparr>]"
  have "(Inr () :: js_error + unit) = Inr ()" and "(Inr ?ds :: js_error + McpTool list) = Inr ?ds"
    by simp_all
  from bridge_wraps_catalog [OF this, of config0 7 True heap0]
  obtain b h1 where
    c: "createBrowserAgentDefinition config0 7 True (Inr ()) (Inr ?ds) heap0 = (Inr b, h1)"
    and l: "length (toolConfig_tools b) = length ?ds"
    and e: "\<forall>i<length ?ds. \<exists>t.
                 tools h1 (toolConfig_tools b ! i) = Some t
                 \<and> browserManager t = bridge_manager b
                 \<and> tool_name t = name (?ds ! i)
                 \<and> tool_description t
                     = (case description (?ds ! i) of Some x \<Rightarrow> x | None \<Rightarrow> [])
                 \<and> parameterSchema t
                     = (case inputSchema (?ds ! i) of
                          Some sch \<Rightarrow> sch
                        | None \<Rightarrow> JObj [(''type'', JStr ''object''), (''properties'', JObj [])])
                 \<and> (\<forall>params. inv_toolName (build t params) = name (?ds ! i)
                        \<and> inv_browserManager (build t params) = bridge_manager b
                        \<and> inv_params (build t params) = params)"
    by (elim exE conjE)
  from e [rule_format, of 0] e [rule_format, of 1] c l show ?thesis
    by (intro conjI exI [of _ b] exI [of _ h1]) auto
qed

section \<open>Two bridges\<close>

lemma store_tools_zip_nth:
  assumes "length refs = length objs" and "distinct refs" and "i < length refs"
  shows "store_tools (zip refs objs) tm (refs ! i) = Some (objs ! i)"
  using store_tools_nth [of "zip refs objs" i tm] assms by simp

lemma store_tools_zip_map:
  assumes "length refs = length objs" and "distinct refs"
  shows "map (store_tools (zip refs objs) tm) refs = map Some objs"
  using assms by (intro nth_equalityI) (simp_all add: store_tools_zip_nth)

lemma store_tools_zip_other:
  assumes "length refs = length objs" and "r \<notin> set refs"
  shows "store_tools (zip refs objs) tm r = tm r"
  using assms by (intro store_tools_other) (simp add: image_iff set_zip in_set_conv_nth, metis nth_mem)

lemma on_manager_frame:
  "bm' \<noteq> bm \<Longrightarrow> managers (snd (on_manager bm method h)) bm' = managers h bm'"
  "tools (snd (on_manager bm method h)) = tools h"
  by (auto simp: on_manager_def split: option.splits prod.splits)

lemma create_success_inv:
  assumes "createBrowserAgentDefinition cfg mb po rc rl h = (Inr b, h1)"
  obtains ds where
    "bridge_manager b = next_ref (hworld h)"
    "toolConfig_tools b = [next_ref (hworld h) + 3 ..< next_ref (hworld h) + 3 + length ds]"
    "managers h1 = (managers h)(next_ref (hworld h) \<mapsto> built_manager cfg (next_ref (hworld h)) ds)"
    "tools h1 = store_tools (zip [next_ref (hworld h) + 3 ..< next_ref (hworld h) + 3 + length ds]
                               (map (wrap_tool (next_ref (hworld h)) mb) ds)) (tools h)"
    "next_ref (hworld h1) = next_ref (hworld h) + 3 + length ds"
    "registry (hworld h1) = registry (hworld h)"
proof -
  obtain u ds where "rc = Inr u" and "rl = Inr ds"
    using assms by (rule create_Inr)
  from create_success [OF this, of cfg mb po h] assms
  show ?thesis by (intro that [of ds]) auto
qed

text \<open>
  C1. No build, failing or not, changes the shared registry. A build that succeeds
  returns tools that are exactly the wrappings of the descriptors its manager discovered,
  in order. Of two builds that succeed, one after the other: the managers are two
  objects, each with its own client and its own transport; no tool object is in both
  bridges; every tool dispatches to the manager of its own bridge; and whatever method
  runs on one manager leaves the other manager and every tool object as they were. All
  this holds whatever the two discovery responses are, equal or not.
\<close>

theorem bridges_isolated:
  assumes A: "createBrowserAgentDefinition cfg1 mb1 po1 rc1 rl1 h0 = (Inr bA, h1)"
      and B: "createBrowserAgentDefinition cfg2 mb2 po2 rc2 rl2 h1 = (Inr bB, h2)"
  shows "registry (hworld (snd (createBrowserAgentDefinition cfg mb po rc rl h)))
           = registry (hworld h)
         \<and> registry (hworld h1) = registry (hworld h0)
         \<and> registry (hworld h2) = registry (hworld h0)
         \<and> (\<exists>mA. managers h1 (bridge_manager bA) = Some mA
                \<and> map (tools h1) (toolConfig_tools bA)
                    = map (\<lambda>d. Some (wrap_tool (bridge_manager bA) mb1 d)) (discoveredTools mA))
         \<and> bridge_manager bA \<noteq> bridge_manager bB
         \<and> set (toolConfig_tools bA) \<inter> set (toolConfig_tools bB) = {}
         \<and> (\<forall>r\<in>set (toolConfig_tools bA).
               \<exists>t. tools h2 r = Some t \<and> browserManager t = bridge_manager bA)
         \<and> (\<forall>r\<in>set (toolConfig_tools bB).
               \<exists>t. tools h2 r = Some t \<and> browserManager t = bridge_manager bB)
         \<and> (\<exists>mA mB. managers h2 (bridge_manager bA) = Some mA
                \<and> managers h2 (bridge_manager bB) = Some mB
                \<and> rawMcpClient mA \<noteq> None \<and> rawMcpClient mB \<noteq> None
                \<and> rawMcpClient mA \<noteq> rawMcpClient mB
                \<and> mcpTransport mA \<noteq> None \<and> mcpTransport mB \<noteq> None
                \<and> mcpTransport mA \<noteq> mcpTransport mB)
         \<and> managers (snd (on_manager (bridge_manager bA) method h2)) (bridge_manager bB)
             = managers h2 (bridge_manager bB)
         \<and> managers (snd (on_manager (bridge_manager bB) method h2)) (bridge_manager bA)
             = managers h2 (bridge_manager bA)
         \<and> tools (snd (on_manager (bridge_manager bA) method h2)) = tools h2
         \<and> tools (snd (on_manager (bridge_manager bB) method h2)) = tools h2"
proof -
  let ?a = "next_ref (hworld h0)"
  let ?b = "next_ref (hworld h1)"
  obtain dsA where
    mA: "bridge_manager bA = ?a"
    and tA: "toolConfig_tools bA = [?a + 3 ..< ?a + 3 + length dsA]"
    and mgA: "managers h1 = (managers h0)(?a \<mapsto> built_manager cfg1 ?a dsA)"
    and tlA: "tools h1 = store_tools (zip [?a + 3 ..< ?a + 3 + length dsA]
                                        (map (wrap_tool ?a mb1) dsA)) (tools h0)"
    and nA: "?b = ?a + 3 + length dsA"
    and gA: "registry (hworld h1) = registry (hworld h0)"
    using A by (rule create_success_inv)
  obtain dsB where
    mB: "bridge_manager bB = ?b"
    and tB: "toolConfig_tools bB = [?b + 3 ..< ?b + 3 + length dsB]"
    and mgB: "managers h2 = (managers h1)(?b \<mapsto> built_manager cfg2 ?b dsB)"
    and tlB: "tools h2 = store_tools (zip [?b + 3 ..< ?b + 3 + length dsB]
                                        (map (wrap_tool ?b mb2) dsB)) (tools h1)"
    and gB: "registry (hworld h2) = registry (hworld h1)"
    using B by (rule create_success_inv)
  have ne: "?a \<noteq> ?b" using nA by simp
  have disj: "set (toolConfig_tools bA) \<inter> set (toolConfig_tools bB) = {}"
    unfolding tA tB using nA by auto
  have mapA: "map (tools h1) (toolConfig_tools bA) = map (\<lambda>d. Some (wrap_tool ?a mb1 d)) dsA"
    unfolding tA tlA by (simp add: store_tools_zip_map)
  have mapB: "map (tools h2) (toolConfig_tools bB) = map (\<lambda>d. Some (wrap_tool ?b mb2 d)) dsB"
    unfolding tB tlB by (simp add: store_tools_zip_map)
  have keepA: "tools h2 r = tools h1 r" if "r \<in> set (toolConfig_tools bA)" for r
    unfolding tlB
    by (rule store_tools_zip_other) (use that nA tA in auto)
  have inA: "\<exists>t. tools h2 r = Some t \<and> browserManager t = ?a"
    if r: "r \<in> set (toolConfig_tools bA)" for r
  proof -
    from r obtain i where i: "i < length (toolConfig_tools bA)" and ri: "r = toolConfig_tools bA ! i"
      by (auto simp: in_set_conv_nth)
    from i have i': "i < length dsA" by (simp add: tA)
    from arg_cong [OF mapA, of "\<lambda>xs. xs ! i"] i i'
    have "tools h1 r = Some (wrap_tool ?a mb1 (dsA ! i))"
      by (simp add: ri)
    with keepA [OF r] show ?thesis
      by (simp add: wrap_tool_fields)
  qed
  have inB: "\<exists>t. tools h2 r = Some t \<and> browserManager t = ?b"
    if r: "r \<in> set (toolConfig_tools bB)" for r
  proof -
    from r obtain i where i: "i < length (toolConfig_tools bB)" and ri: "r = toolConfig_tools bB ! i"
      by (auto simp: in_set_conv_nth)
    from i have i': "i < length dsB" by (simp add: tB)
    from arg_cong [OF mapB, of "\<lambda>xs. xs ! i"] i i'
    have "tools h2 r = Some (wrap_tool ?b mb2 (dsB ! i))"
      by (simp add: ri)
    then show ?thesis
      by (simp add: wrap_tool_fields)
  qed
  have m2A: "managers h2 ?a = Some (built_manager cfg1 ?a dsA)"
    and m2B: "managers h2 ?b = Some (built_manager cfg2 ?b dsB)"
    using ne by (simp_all add: mgA mgB)
  have objs: "\<exists>mA mB. managers h2 ?a = Some mA \<and> managers h2 ?b = Some mB
                \<and> rawMcpClient mA \<noteq> None \<and> rawMcpClient mB \<noteq> None
                \<and> rawMcpClient mA \<noteq> rawMcpClient mB
                \<and> mcpTransport mA \<noteq> None \<and> mcpTransport mB \<noteq> None
                \<and> mcpTransport mA \<noteq> mcpTransport mB"
    using m2A m2B ne by (simp add: built_manager_def)
  have first: "\<exists>mA. managers h1 ?a = Some mA
                \<and> map (tools h1) (toolConfig_tools bA)
                    = map (\<lambda>d. Some (wrap_tool ?a mb1 d)) (discoveredTools mA)"
    using mapA by (simp add: mgA built_manager_def)
  have frame: "managers (snd (on_manager ?a method h2)) ?b = managers h2 ?b"
    "managers (snd (on_manager ?b method h2)) ?a = managers h2 ?a"
    "tools (snd (on_manager ?a method h2)) = tools h2"
    "tools (snd (on_manager ?b method h2)) = tools h2"
    using ne by (simp_all add: on_manager_frame)
  show ?thesis
    unfolding mA mB
    using create_registry [of cfg mb po rc rl h] gA gB first ne disj inA inB objs frame
    by (simp add: mA mB)
qed

theorem bridges_isolated_witness:
  "\<exists>h1 h2.
     createBrowserAgentDefinition config0 7 False (Inr ())
       (Inr [\<lparr> name = ''click'', description = None, inputSchema = None \<rparr>]) heap0
       = (Inr \<lparr> toolConfig_tools = [3], bridge_manager = 0 \<rparr>, h1)
     \<and> createBrowserAgentDefinition config0 7 False (Inr ())
         (Inr [\<lparr> name = ''click'', description = None, inputSchema = None \<rparr>]) h1
         = (Inr \<lparr> toolConfig_tools = [7], bridge_manager = 4 \<rparr>, h2)
     \<and> registry (hworld h2) = registry (hworld heap0)
     \<and> (\<exists>t. tools h2 3 = Some t \<and> browserManager t = 0)
     \<and> (\<exists>t. tools h2 7 = Some t \<and> browserManager t = 4)
     \<and> (\<exists>mA mB. managers h2 0 = Some mA \<and> managers h2 4 = Some mB
            \<and> rawMcpClient mA \<noteq> rawMcpClient mB \<and> mcpTransport mA \<noteq> mcpTransport mB)"
proof -
  let ?ds = "[\<lparr> name = ''click'', description = None, inputSchema = None \<rparr>]"
  have n0: "next_ref (hworld heap0) = 0"
    by (simp add: heap0_def world0_def)
  have rc: "(Inr () :: js_error + unit) = Inr ()" and rl: "(Inr ?ds :: js_error + McpTool list) = Inr ?ds"
    by simp_all
  from create_success [OF rc rl, of config0 7 False heap0] obtain h1 where
    A: "createBrowserAgentDefinition config0 7 False (Inr ()) (Inr ?ds) heap0
          = (Inr \<lparr> toolConfig_tools = [3], bridge_manager = 0 \<rparr>, h1)"
    and n1: "next_ref (hworld h1) = 4"
    by (auto simp: n0 upt_rec)
  from create_success [OF rc rl, of config0 7 False h1] obtain h2 where
    B: "createBrowserAgentDefinition config0 7 False (Inr ()) (Inr ?ds) h1
          = (Inr \<lparr> toolConfig_tools = [7], bridge_manager = 4 \<rparr>, h2)"
    by (auto simp: n1 upt_rec)
  note t = bridges_isolated [OF A B, of config0 7 False "Inr ()" "Inr ?ds" heap0 "close (Inr ()) (Inr ())"]
  from t have "registry (hworld h2) = registry (hworld heap0)"
    by (elim conjE)
  moreover from t have "\<exists>t. tools h2 3 = Some t \<and> browserManager t = 0"
    by simp
  moreover from t have "\<exists>t. tools h2 7 = Some t \<and> browserManager t = 4"
    by simp
  moreover from t have "\<exists>mA mB. managers h2 0 = Some mA \<and> managers h2 4 = Some mB
            \<and> rawMcpClient mA \<noteq> rawMcpClient mB \<and> mcpTransport mA \<noteq> mcpTransport mB"
    by (elim conjE exE) auto
  ultimately show ?thesis
    using A B by blast
qed

section \<open>Concurrent callers\<close>

lemma count_update:
  assumes "i < length xs"
  shows "length (filter P (xs[i := v])) + (if P (xs ! i) then 1 else 0)
           = length (filter P xs) + (if P v then 1 else 0)"
  using assms
proof (induction xs arbitrary: i)
  case Nil
  then show ?case by simp
next
  case (Cons x xs)
  show ?case
  proof (cases i)
    case 0
    then show ?thesis by simp
  next
    case (Suc j)
    with Cons.prems Cons.IH [of j] show ?thesis by auto
  qed
qed

lemma waiting_update:
  assumes "i < length (callers s)"
  shows "waiting (s\<lparr>callers := (callers s)[i := v], smgr := m, swld := w\<rparr>)
           + (if is_waiting (callers s ! i) then 1 else 0)
         = waiting s + (if is_waiting v then 1 else 0)"
  using count_update [OF assms, of is_waiting v] by (simp add: waiting_def)

lemma single_attempt_init: "single_attempt w (conn_init n m w)"
  by (simp add: single_attempt_def conn_init_def waiting_def)

lemma single_attempt_call:
  assumes "single_attempt w0 s"
  shows "single_attempt w0 (caller_call i s)"
proof (cases "i < length (callers s) \<and> callers s ! i = Unstarted")
  case False
  then have "caller_call i s = s" by (auto simp: caller_call_def)
  with assms show ?thesis by simp
next
  case True
  then have i: "i < length (callers s)" and u: "callers s ! i = Unstarted" by simp_all
  show ?thesis
  proof (cases "rawMcpClient (smgr s) = None")
    case False
    have "waiting (s\<lparr>callers := (callers s)[i := Returned (Inr ())], smgr := smgr s, swld := swld s\<rparr>)
            = waiting s"
      using waiting_update [OF i, where v = "Returned (Inr ())" and m = "smgr s" and w = "swld s"] u by simp
    with assms False True show ?thesis
      by (auto simp: caller_call_def single_attempt_def waiting_def)
  next
    case True
    let ?m1 = "fst (connectMcp_start (smgr s) (swld s))"
    let ?w1 = "snd (connectMcp_start (smgr s) (swld s))"
    have "waiting (s\<lparr>callers := (callers s)[i := WaitConnect], smgr := ?m1, swld := ?w1\<rparr>)
            = Suc (waiting s)"
      using waiting_update [OF i, where v = WaitConnect and m = ?m1 and w = ?w1] u by simp
    with assms True i u show ?thesis
      by (simp add: caller_call_def single_attempt_def split_beta connectMcp_start_mgr
            connectMcp_start_world)
  qed
qed

lemma single_attempt_connected:
  assumes "single_attempt w0 s"
  shows "single_attempt w0 (caller_connected i rc s)"
proof (cases "i < length (callers s) \<and> callers s ! i = WaitConnect")
  case False
  then have "caller_connected i rc s = s" by (auto simp: caller_connected_def)
  with assms show ?thesis by simp
next
  case True
  then have i: "i < length (callers s)" and u: "callers s ! i = WaitConnect" by simp_all
  let ?c = "connectMcp_connected rc (smgr s) (swld s)"
  have w: "waiting (s\<lparr>callers := (callers s)[i := v], smgr := smgr s, swld := snd (snd ?c)\<rparr>)
             \<le> waiting s" for v
    using waiting_update [OF i, where v = v and m = "smgr s" and w = "snd (snd ?c)"] u by (simp split: if_splits)
  have pos: "0 < waiting s"
    using u nth_mem [OF i] by (auto simp: waiting_def filter_empty_conv intro!: bexI [of _ "callers s ! i"])
  have "single_attempt w0 (s\<lparr>callers := (callers s)[i := v], smgr := smgr s, swld := snd (snd ?c)\<rparr>)"
    for v
    using assms w [of v] pos
    by (auto simp: single_attempt_def connectMcp_connected_world split: if_splits)
  then show ?thesis
    using True connectMcp_connected_mgr [of rc "smgr s" "swld s"]
    by (cases ?c rule: prod_cases3) (auto simp: caller_connected_def split: sum.splits)
qed

lemma single_attempt_listed:
  assumes "single_attempt w0 s"
  shows "single_attempt w0 (caller_listed i rl s)"
proof (cases "i < length (callers s) \<and> callers s ! i = WaitListTools")
  case False
  then have "caller_listed i rl s = s" by (auto simp: caller_listed_def)
  with assms show ?thesis by simp
next
  case True
  then have i: "i < length (callers s)" and u: "callers s ! i = WaitListTools" by simp_all
  let ?c = "discoverTools_finish rl (smgr s) (swld s)"
  have w: "waiting (s\<lparr>callers := (callers s)[i := Returned r], smgr := m, swld := w1\<rparr>)
             \<le> waiting s" for r m w1
    using waiting_update [OF i, where v = "Returned r" and m = m and w = w1] u by simp
  have pos: "0 < waiting s"
    using u nth_mem [OF i] by (auto simp: waiting_def filter_empty_conv intro!: bexI [of _ "callers s ! i"])
  have "single_attempt w0
          (s\<lparr>callers := (callers s)[i := Returned (fst ?c)], smgr := fst (snd ?c), swld := snd (snd ?c)\<rparr>)"
    using assms w [where r = "fst ?c" and m = "fst (snd ?c)" and ?w1.0 = "snd (snd ?c)"] pos
    by (auto simp: single_attempt_def discoverTools_finish_world discoverTools_finish_mgr
          split: if_splits)
  then show ?thesis
    using True by (simp add: caller_listed_def split_beta)
qed

lemma single_attempt_step: "single_attempt w0 s \<Longrightarrow> single_attempt w0 (conn_step s ev)"
  by (cases ev) (simp_all add: single_attempt_call single_attempt_connected single_attempt_listed)

lemma single_attempt_run: "single_attempt w0 s \<Longrightarrow> single_attempt w0 (conn_run s sc)"
  unfolding conn_run_def
  by (induction sc arbitrary: s) (simp_all add: single_attempt_step)

text \<open>
  A caller that arrives once the manager holds its client returns at once,
  successfully, and does nothing to the manager or to the outside: it does not wait for
  the attempt in flight.
\<close>

lemma late_caller_returns:
  assumes "rawMcpClient (smgr s) \<noteq> None" and "i < length (callers s)"
    and "callers s ! i = Unstarted"
  shows "callers (conn_step s (Call i)) = (callers s)[i := Returned (Inr ())]"
    and "smgr (conn_step s (Call i)) = smgr s"
    and "swld (conn_step s (Call i)) = swld s"
  using assms by (simp_all add: caller_call_def)

text \<open>
  However the calls of \<^verbatim>\<open>ensureConnection\<close> on one manager interleave, whatever the
  manager holds when they begin, and however the connect and the discovery settle, at
  most one transport is created (one subprocess) and at most one connect is issued.
\<close>

lemma spawn_at_most_once:
  "spawned (swld (conn_run (conn_init n m w) sc)) \<le> Suc (spawned w)
   \<and> connects (swld (conn_run (conn_init n m w) sc)) \<le> Suc (connects w)"
proof -
  let ?s = "conn_run (conn_init n m w) sc"
  have "single_attempt w ?s"
    by (rule single_attempt_run) (rule single_attempt_init)
  then show ?thesis
    by (simp add: single_attempt_def split: if_splits)
qed

text \<open>
  C3 fails on the code in what the callers observe. Three callers on a new manager. The
  first starts the attempt and waits for the connect. The second arrives while the
  connect is pending: \<^verbatim>\<open>connectMcp\<close> has stored \<^verbatim>\<open>rawMcpClient\<close> before its first
  await and \<^verbatim>\<open>ensureConnection\<close> tests only that field, so the second caller returns
  successfully at once, on a client that is not connected, and a
  \<^verbatim>\<open>getDiscoveredTools\<close> at that moment returns the empty catalog as a success. Then
  the connect fails and the first caller gets the failure: the callers have not observed
  one outcome. The field stays set after the failure, so the third caller, arriving
  later still, also returns successfully; the manager holds the dead client and an empty
  catalog, and no new attempt is made.
\<close>

theorem ensureConnection_outcomes_diverge:
  "callers (conn_run (conn_init 3 (new_BrowserManager config0) world0) [Call 0, Call 1])
     = [WaitConnect, Returned (Inr ()), Unstarted]
   \<and> fst (getDiscoveredTools (Inr ())
             (Inr [\<lparr> name = ''click'', description = None, inputSchema = None \<rparr>])
             (smgr (conn_run (conn_init 3 (new_BrowserManager config0) world0) [Call 0]))
             (swld (conn_run (conn_init 3 (new_BrowserManager config0) world0) [Call 0])))
       = Inr []
   \<and> callers (conn_run (conn_init 3 (new_BrowserManager config0) world0)
                [Call 0, Call 1, ConnectDone 0 (Inl (Error ''spawn npx ENOENT''))])
       = [Returned (Inl (Error ''spawn npx ENOENT'')), Returned (Inr ()), Unstarted]
   \<and> \<not> same_outcome (conn_run (conn_init 3 (new_BrowserManager config0) world0)
                [Call 0, Call 1, ConnectDone 0 (Inl (Error ''spawn npx ENOENT''))])
   \<and> callers (conn_run (conn_init 3 (new_BrowserManager config0) world0)
                [Call 0, Call 1, ConnectDone 0 (Inl (Error ''spawn npx ENOENT'')), Call 2])
       = [Returned (Inl (Error ''spawn npx ENOENT'')), Returned (Inr ()), Returned (Inr ())]
   \<and> smgr (conn_run (conn_init 3 (new_BrowserManager config0) world0)
             [Call 0, Call 1, ConnectDone 0 (Inl (Error ''spawn npx ENOENT'')), Call 2])
       = \<lparr> config = config0, rawMcpClient = Some 0, mcpTransport = Some 1,
           discoveredTools = [] \<rparr>
   \<and> spawned (swld (conn_run (conn_init 3 (new_BrowserManager config0) world0)
             [Call 0, Call 1, ConnectDone 0 (Inl (Error ''spawn npx ENOENT'')), Call 2])) = 1"
proof -
  let ?m0 = "new_BrowserManager config0"
  let ?e = "Error ''spawn npx ENOENT''"
  note run = conn_run_def conn_init_def caller_call_def caller_connected_def
    new_BrowserManager_def split_beta connectMcp_start_mgr connectMcp_connected_def
    numeral_3_eq_3
  have n0: "next_ref world0 = 0" and s0: "spawned world0 = 0"
    by (simp_all add: world0_def spawned_def)
  have c2: "callers (conn_run (conn_init 3 ?m0 world0) [Call 0, Call 1])
              = [WaitConnect, Returned (Inr ()), Unstarted]"
    by (simp add: run)
  have m1: "smgr (conn_run (conn_init 3 ?m0 world0) [Call 0])
              = \<lparr> config = config0, rawMcpClient = Some 0, mcpTransport = Some 1,
                  discoveredTools = [] \<rparr>"
    by (simp add: run n0 connectMcp_start_def Let_def)
  have g: "fst (getDiscoveredTools (Inr ())
             (Inr [\<lparr> name = ''click'', description = None, inputSchema = None \<rparr>])
             (smgr (conn_run (conn_init 3 ?m0 world0) [Call 0]))
             (swld (conn_run (conn_init 3 ?m0 world0) [Call 0]))) = Inr []"
    unfolding m1 by (simp add: getDiscoveredTools_def ensureConnection_def)
  have c3: "callers (conn_run (conn_init 3 ?m0 world0) [Call 0, Call 1, ConnectDone 0 (Inl ?e)])
              = [Returned (Inl ?e), Returned (Inr ()), Unstarted]"
    by (simp add: run)
  have d: "\<not> same_outcome (conn_run (conn_init 3 ?m0 world0)
                             [Call 0, Call 1, ConnectDone 0 (Inl ?e)])"
    unfolding same_outcome_def c3 by simp
  have c4: "callers (conn_run (conn_init 3 ?m0 world0)
                       [Call 0, Call 1, ConnectDone 0 (Inl ?e), Call 2])
              = [Returned (Inl ?e), Returned (Inr ()), Returned (Inr ())]"
    by (simp add: run)
  have m4: "smgr (conn_run (conn_init 3 ?m0 world0)
                    [Call 0, Call 1, ConnectDone 0 (Inl ?e), Call 2])
              = \<lparr> config = config0, rawMcpClient = Some 0, mcpTransport = Some 1,
                  discoveredTools = [] \<rparr>"
    by (simp add: run n0 connectMcp_start_def Let_def)
  have s4: "spawned (swld (conn_run (conn_init 3 ?m0 world0)
                             [Call 0, Call 1, ConnectDone 0 (Inl ?e), Call 2])) = 1"
    using s0
    by (simp add: conn_run_def conn_init_def caller_call_def caller_connected_def
          new_BrowserManager_def split_beta connectMcp_start_mgr connectMcp_start_world
          connectMcp_connected_def numeral_3_eq_3)
  from c2 g c3 d c4 m4 s4 show ?thesis
    by (intro conjI)
qed

section \<open>The race\<close>

text \<open>
  In the race, with the listener on a signal that has not fired, the first of the two to
  settle gives the outcome, and nothing that happens later changes it.
\<close>

lemma race_remote_first:
  assumes "pc k = Racing"
  shows "outcome (foldl call_step k (RemoteSettled rr # evs)) = Some (remote_outcome rr)"
proof -
  have "pc (call_step k (RemoteSettled rr)) = Settled (remote_outcome rr)"
    using assms by (simp add: on_remote_def)
  from call_run_settled [OF this, of evs] show ?thesis
    by (simp add: outcome_def)
qed

lemma race_abort_first:
  assumes "pc k = Racing" and "onAbort k" and "signal k = Some s" and "\<not> aborted s"
  shows "outcome (foldl call_step k (AbortFired r # evs)) = Some (Inl (abort_reason r))"
proof -
  have "pc (call_step k (AbortFired r)) = Settled (Inl (abort_reason r))"
    using assms by (simp add: on_abort_def Let_def)
  from call_run_settled [OF this, of evs] show ?thesis
    by (simp add: outcome_def)
qed

lemma connected_call_races:
  assumes "rawMcpClient m \<noteq> None" and "\<not> aborted s"
  shows "pc (callTool_start n as (Some s) m w) = Racing"
    and "onAbort (callTool_start n as (Some s) m w)"
    and "signal (callTool_start n as (Some s) m w) = Some s"
  using assms by (auto simp: callTool_start_def dispatch_def Let_def)

text \<open>
  On a connected manager a remote call that settles before the signal fires gives the
  outcome, a signal that fires first cancels the call, and the outcome, once there, is
  the only one.
\<close>

lemma connected_call_race:
  assumes "rawMcpClient m \<noteq> None" and "\<not> aborted s"
  shows "outcome (callTool n as (Some s) (RemoteSettled rr # evs) m w) = Some (remote_outcome rr)"
    and "outcome (callTool n as (Some s) (AbortFired r # evs) m w) = Some (Inl (abort_reason r))"
  unfolding callTool_def
  using race_remote_first [OF connected_call_races(1) [OF assms]]
        race_abort_first [OF connected_call_races [OF assms] assms(2)]
  by simp_all

text \<open>
  C5 fails on the code where the signal fires while \<^verbatim>\<open>callTool\<close> is still awaiting
  \<^verbatim>\<open>getRawMcpClient\<close>. The manager below has no client, so the call starts the
  connect; the signal is aborted while the connect is pending; the connect and the
  discovery succeed. The call does not look at the signal again: it sends the request,
  adds its listener to a signal that has already fired, and delivers the remote call's
  response. The signal settled first and did not determine the outcome. On a connected
  manager the same abort before the same response cancels the call.
\<close>

theorem abort_while_connecting_lost:
  "signal (callTool ''click'' [] (Some \<lparr> aborted = False, reason = None \<rparr>)
             [AbortFired (Some (Error ''This operation was aborted'')), ConnectSettled (Inr ()),
              ListToolsSettled (Inr [])]
             (new_BrowserManager config0) world0)
     = Some \<lparr> aborted = True, reason = Some (Error ''This operation was aborted'') \<rparr>
   \<and> requests_sent (wld (callTool ''click'' [] (Some \<lparr> aborted = False, reason = None \<rparr>)
             [AbortFired (Some (Error ''This operation was aborted'')), ConnectSettled (Inr ()),
              ListToolsSettled (Inr [])]
             (new_BrowserManager config0) world0))
       = [CallToolRequest 0 ''click'' [] 60000]
   \<and> outcome (callTool ''click'' [] (Some \<lparr> aborted = False, reason = None \<rparr>)
             [AbortFired (Some (Error ''This operation was aborted'')), ConnectSettled (Inr ()),
              ListToolsSettled (Inr []), RemoteSettled (Inr ok_response)]
             (new_BrowserManager config0) world0)
       = Some (Inr \<lparr> content = Some [text_item ''clicked''], isError = Some False \<rparr>)
   \<and> outcome (callTool ''click'' [] (Some \<lparr> aborted = False, reason = None \<rparr>)
             [AbortFired (Some (Error ''This operation was aborted'')),
              RemoteSettled (Inr ok_response)]
             connected0 world0)
       = Some (Inl (Error ''This operation was aborted''))"
  by (simp add: callTool_def callTool_start_def on_abort_def on_connect_def on_listTools_def
        on_remote_def client_obtained_def dispatch_def connectMcp_start_def
        connectMcp_connected_def discoverTools_finish_def remote_outcome_def toResult_def
        toResult_item_def outcome_def requests_sent_def emit_def fresh_def Let_def split_beta
        new_BrowserManager_def connected0_def world0_def ok_response_def text_item_def
        abort_reason_def MCP_TIMEOUT_MS_def)

section \<open>The two views of a method agree\<close>

text \<open>
  One caller of \<^verbatim>\<open>ensureConnection\<close>, handed the outcomes of its two requests in
  turn, ends where the method run alone ends.
\<close>

lemma single_caller_run:
  "conn_run (conn_init 1 m w) [Call 0, ConnectDone 0 rc, ListToolsDone 0 rl]
     = \<lparr> callers = [Returned (fst (ensureConnection rc rl m w))],
         smgr = fst (snd (ensureConnection rc rl m w)),
         swld = snd (snd (ensureConnection rc rl m w)) \<rparr>"
proof (cases "rawMcpClient m = None")
  case False
  then show ?thesis
    by (auto simp: conn_run_def conn_init_def caller_call_def caller_connected_def
          caller_listed_def ensureConnection_def)
next
  case True
  let ?m1 = "fst (connectMcp_start m w)" and ?w1 = "snd (connectMcp_start m w)"
  have c: "rawMcpClient ?m1 \<noteq> None"
    by (simp add: connectMcp_start_mgr)
  show ?thesis
  proof (cases rc)
    case (Inl e)
    with True show ?thesis
      by (simp add: conn_run_def conn_init_def caller_call_def caller_connected_def
            caller_listed_def ensureConnection_def connectMcp_def connectMcp_connected_def
            split_beta)
  next
    case (Inr u)
    with True c show ?thesis
      by (auto simp: conn_run_def conn_init_def caller_call_def caller_connected_def
            caller_listed_def ensureConnection_def connectMcp_def connectMcp_connected_def
            split_beta Let_def)
  qed
qed

text \<open>
  A call whose signal stays quiet gets through \<^verbatim>\<open>getRawMcpClient\<close> as the method run
  alone does: it fails with its error, or it dispatches to its client.
\<close>

lemma callTool_getRawMcpClient:
  assumes "\<not> (case sg of Some s \<Rightarrow> aborted s | None \<Rightarrow> False)" and "rawMcpClient m = None"
  shows "callTool n as sg [ConnectSettled rc, ListToolsSettled rl] m w =
           (case getRawMcpClient rc rl m w of
              (Inl e, m1, w1) \<Rightarrow>
                \<lparr> pc = Settled (Inl e), toolName = n, arguments = as, signal = sg,
                  onAbort = False, mgr = m1, wld = w1 \<rparr>
            | (Inr c, m1, w1) \<Rightarrow>
                dispatch c \<lparr> pc = AwaitListTools, toolName = n, arguments = as, signal = sg,
                             onAbort = False, mgr = m1, wld = w1 \<rparr>)"
proof -
  let ?m1 = "fst (connectMcp_start m w)" and ?w1 = "snd (connectMcp_start m w)"
  have c: "rawMcpClient ?m1 = Some (next_ref w)"
    by (simp add: connectMcp_start_mgr)
  show ?thesis
  proof (cases rc)
    case (Inl e)
    with assms show ?thesis
      by (simp add: callTool_def callTool_start_def on_connect_def on_listTools_def
            getRawMcpClient_def ensureConnection_def connectMcp_def connectMcp_connected_def
            split_beta Let_def)
  next
    case rc: (Inr u)
    show ?thesis
    proof (cases rl)
      case (Inl e)
      with assms rc c show ?thesis
        by (simp add: callTool_def callTool_start_def on_connect_def on_listTools_def
              getRawMcpClient_def ensureConnection_def connectMcp_def connectMcp_connected_def
              discoverTools_finish_def split_beta Let_def)
    next
      case (Inr ds)
      with assms rc c show ?thesis
        by (simp add: callTool_def callTool_start_def on_connect_def on_listTools_def
              getRawMcpClient_def ensureConnection_def connectMcp_def connectMcp_connected_def
              discoverTools_finish_def client_obtained_def dispatch_def split_beta Let_def
              split: option.splits)
    qed
  qed
qed

text \<open>
  The lost abort in general: on a manager without a client, a signal that fires while
  the connect is pending changes nothing in what the call delivers once the connect and
  the discovery succeed. The request is sent and the remote call alone decides.
\<close>

lemma lost_abort_general:
  assumes "rawMcpClient m = None" and "\<not> aborted s"
  shows "outcome (callTool n as (Some s)
                    [AbortFired r, ConnectSettled (Inr ()), ListToolsSettled (Inr ds), RemoteSettled rr]
                    m w)
           = Some (remote_outcome rr)"
    and "requests_sent (wld (callTool n as (Some s)
                    [AbortFired r, ConnectSettled (Inr ()), ListToolsSettled (Inr ds)] m w))
           = requests_sent w @ [CallToolRequest (next_ref w) n as MCP_TIMEOUT_MS]"
proof -
  let ?m1 = "fst (connectMcp_start m w)" and ?w1 = "snd (connectMcp_start m w)"
  have c: "rawMcpClient ?m1 = Some (next_ref w)"
    by (simp add: connectMcp_start_mgr)
  have t: "requests_sent ?w1 = requests_sent w"
    by (simp add: connectMcp_start_def requests_sent_def split_beta Let_def)
  show "outcome (callTool n as (Some s)
                    [AbortFired r, ConnectSettled (Inr ()), ListToolsSettled (Inr ds), RemoteSettled rr]
                    m w)
           = Some (remote_outcome rr)"
    using assms c
    by (simp add: callTool_def callTool_start_def on_abort_def on_connect_def on_listTools_def
          on_remote_def connectMcp_connected_def discoverTools_finish_def client_obtained_def
          dispatch_def outcome_def split_beta Let_def)
  show "requests_sent (wld (callTool n as (Some s)
                    [AbortFired r, ConnectSettled (Inr ()), ListToolsSettled (Inr ds)] m w))
           = requests_sent w @ [CallToolRequest (next_ref w) n as MCP_TIMEOUT_MS]"
    using assms c t
    by (simp add: callTool_def callTool_start_def on_abort_def on_connect_def on_listTools_def
          connectMcp_connected_def discoverTools_finish_def client_obtained_def
          dispatch_def requests_sent_def split_beta Let_def)
qed

end
